theory Spec2Isabelle
  imports Complex_Main "HOL-Library.Sublist"
begin

section \<open>JavaScript values, errors and the page primitives\<close>

type_synonym page = nat
type_synonym node = nat

text \<open>The values that travel between the utilities and the browser-automation library.
  An \<open>ElementHandle\<close> is a live handle to a DOM node, a \<open>JSHandle\<close> a handle to any other
  in-page value.\<close>

datatype jsval =
    Undefined
  | Null
  | Bool bool
  | Num real
  | Str string
  | ElementHandle node
  | Array "jsval list"
  | Object "(string \<times> jsval) list"
  | JSHandle jsval

text \<open>JavaScript truthiness, as \<open>!element\<close> and \<open>element || null\<close> test it: arrays, objects
  and handles are always truthy.\<close>

fun truthy :: "jsval \<Rightarrow> bool" where
  "truthy Undefined = False"
| "truthy Null = False"
| "truthy (Bool b) = b"
| "truthy (Num x) = (x \<noteq> 0)"
| "truthy (Str s) = (s \<noteq> [])"
| "truthy (ElementHandle n) = True"
| "truthy (Array vs) = True"
| "truthy (Object kvs) = True"
| "truthy (JSHandle v) = True"

datatype err =
    Error string
  | TypeError string
  | ReferenceError string
  | TimeoutError
  | PageError string

text \<open>How a call settles: it returns, it throws (a rejected promise), or it never settles.\<close>

datatype 'a res = Ok 'a | Thrown err | Hang

text \<open>Every call the utilities make on the page, an element handle or the shared
  \<open>utilities\<close> object, with its arguments.\<close>

datatype prim =
    Query page string
  | QueryAll page string
  | QueryXPath page string
  | EvaluateXPathFirst page string
  | EvaluateHandleXPathFirst page string
  | EvaluateHandleXPathAll page string
  | HandleEvaluate jsval string "jsval list"
  | Evaluate page string "jsval list"
  | EvaluateIsActive page node
  | ElemFocus node
  | ElemType node char int
  | ElemPress node string
  | ElemClick node int
  | KeyboardPress page string
  | PageSelect page string string
  | EvaluateScrollToBottom page
  | EvaluateRandomScroll page real real real
  | EvaluateScrollToElement page string "string option" real real real real
  | LogMessage string
  | RandomWait
  | PageOn page
  | PageOff page
  | WaitForNavigation page nat
  | SetTimeout nat
  | SetInterval nat
  | ClearInterval

section \<open>The navigation session (handleHotmailNavigation, handleGmailNavigation)\<close>

datatype provider = Hotmail | Gmail

text \<open>Where the body of the async function stands: the promise it is awaiting.\<close>

datatype mainpc =
    AwaitClick
  | AwaitDirectWait
  | Settling
  | AwaitLog
  | Finished
  | Rejected err

text \<open>Where one invocation of \<open>navigationHandler\<close> stands. \<open>HGrace\<close> and \<open>HWaiting\<close> lie
  between \<open>navigationResolving = true\<close> and the \<open>finally\<close> block.\<close>

datatype hpc =
    HLogging string
  | HGrace
  | HWaiting
  | HReturned
  | HThrew err

record session =
  provider :: provider
  spage :: page
  selement :: node
  SETTLE_TIMEOUT :: int
  now :: int
  lastNavigationTime :: int
  navigationResolving :: bool
  lastLoggedFrameID :: "string option"
  listening :: bool
  pc :: mainpc
  waitStart :: int
  timerDue :: int
  handlers :: "hpc list"
  effects :: "prim list"
  missed :: nat

text \<open>What the event loop delivers to a session: time passing, a \<open>framenavigated\<close> event
  of the page, and the settling of each promise or timer the session is waiting for.\<close>

datatype event =
    Elapse nat
  | FrameNavigated string
  | ClickSettles "err option"
  | DirectWaitSettles bool
  | TimerFires
  | LogSettles "err option"
  | HLogSettles nat "err option"
  | HGraceFires nat
  | HWaitSettles nat bool

definition NAVIGATION_RECHECK_DELAY :: nat where
  "NAVIGATION_RECHECK_DELAY = 1000"

definition RECHECK_INTERVAL :: nat where
  "RECHECK_INTERVAL = 1500"

definition NAVIGATION_WAIT_TIMEOUT :: "provider \<Rightarrow> nat" where
  "NAVIGATION_WAIT_TIMEOUT p = (case p of Hotmail \<Rightarrow> 10000 | Gmail \<Rightarrow> 5000)"

text \<open>The locals of the function as it initialises them: no listener yet, nothing done.\<close>

definition create :: "provider \<Rightarrow> page \<Rightarrow> node \<Rightarrow> int \<Rightarrow> int \<Rightarrow> session" where
  "create p pg n settle t =
     \<lparr>provider = p, spage = pg, selement = n, SETTLE_TIMEOUT = settle, now = t,
      lastNavigationTime = t, navigationResolving = False, lastLoggedFrameID = None,
      listening = False, pc = AwaitClick, waitStart = t, timerDue = t, handlers = [],
      effects = [], missed = 0\<rparr>"

text \<open>\<open>page.on('framenavigated', navigationHandler)\<close>.\<close>

definition attachListener :: "session \<Rightarrow> session" where
  "attachListener s = s\<lparr>listening := True, effects := effects s @ [PageOn (spage s)]\<rparr>"

text \<open>\<open>element.click()\<close> is called; the function then awaits its promise.\<close>

definition dispatchClick :: "session \<Rightarrow> session" where
  "dispatchClick s = s\<lparr>pc := AwaitClick, effects := effects s @ [ElemClick (selement s) 1]\<rparr>"

text \<open>The synchronous prefix of both functions, up to their first \<open>await\<close>.\<close>

definition begin_session :: "provider \<Rightarrow> page \<Rightarrow> node \<Rightarrow> int \<Rightarrow> int \<Rightarrow> session" where
  "begin_session p pg n settle t = dispatchClick (attachListener (create p pg n settle t))"

definition frameLog :: "string \<Rightarrow> string" where
  "frameLog fid = ''Frame navigated: Frame ID = '' @ fid"

text \<open>The guarded block \<open>if (!navigationResolving) { navigationResolving = true; ... }\<close> up
  to its first \<open>await\<close>: Hotmail waits for the navigation at once, Gmail first sleeps one
  second. The result is where the handler invocation stands afterwards.\<close>

definition acquire :: "session \<Rightarrow> hpc \<times> session" where
  "acquire s =
     (if \<not> navigationResolving s then
        (case provider s of
           Hotmail \<Rightarrow> (HWaiting, s\<lparr>navigationResolving := True,
                          effects := effects s @ [WaitForNavigation (spage s) 10000]\<rparr>)
         | Gmail \<Rightarrow> (HGrace, s\<lparr>navigationResolving := True,
                          effects := effects s @ [SetTimeout 1000]\<rparr>))
      else (HReturned, s))"

text \<open>One \<open>framenavigated\<close> event reaching the listener: the handler runs up to its first
  \<open>await\<close>. Only the Hotmail handler records \<open>lastNavigationTime\<close>.\<close>

definition navigationHandler :: "string \<Rightarrow> session \<Rightarrow> session" where
  "navigationHandler fid s =
     (let s1 = (case provider s of Hotmail \<Rightarrow> s\<lparr>lastNavigationTime := now s\<rparr> | Gmail \<Rightarrow> s);
          currentFrameLog = frameLog fid
      in if lastLoggedFrameID s1 \<noteq> Some currentFrameLog
         then s1\<lparr>handlers := handlers s1 @ [HLogging currentFrameLog],
                 effects := effects s1 @ [LogMessage currentFrameLog]\<rparr>
         else (case acquire s1 of (h, s2) \<Rightarrow> s2\<lparr>handlers := handlers s2 @ [h]\<rparr>))"

text \<open>The settlement promise resolves: the function goes on to log its completion.\<close>

definition resolveSettled :: "session \<Rightarrow> session" where
  "resolveSettled s = s\<lparr>pc := AwaitLog, effects := effects s @ [LogMessage ''Navigation Completed.'']\<rparr>"

text \<open>Hotmail: one run of \<open>checkStability\<close>.\<close>

definition checkStability :: "session \<Rightarrow> session" where
  "checkStability s =
     (let timeSinceLastNavigation = now s - lastNavigationTime s
      in if \<not> navigationResolving s \<and> timeSinceLastNavigation > SETTLE_TIMEOUT s
         then resolveSettled s
         else s\<lparr>pc := Settling, timerDue := now s + int NAVIGATION_RECHECK_DELAY,
                effects := effects s @ [SetTimeout NAVIGATION_RECHECK_DELAY]\<rparr>)"

text \<open>Gmail: one run of the \<open>setInterval\<close> callback.\<close>

definition intervalCallback :: "session \<Rightarrow> session" where
  "intervalCallback s =
     (if \<not> navigationResolving s
      then resolveSettled (s\<lparr>effects := effects s @ [ClearInterval]\<rparr>)
      else s\<lparr>timerDue := now s + int RECHECK_INTERVAL\<rparr>)"

text \<open>What follows the direct post-click wait: Hotmail calls \<open>checkStability\<close> at once, Gmail
  arms its interval timer.\<close>

definition enterSettlement :: "session \<Rightarrow> session" where
  "enterSettlement s =
     (case provider s of
        Hotmail \<Rightarrow> checkStability s
      | Gmail \<Rightarrow> s\<lparr>pc := Settling, timerDue := now s + int RECHECK_INTERVAL,
                    effects := effects s @ [SetInterval RECHECK_INTERVAL]\<rparr>)"

text \<open>One step of the event loop; \<open>None\<close> when the event cannot happen in this state (a
  promise nobody awaits, a timer before it is due, a timeout before its time). An event
  that finds no listener attached is counted in \<open>missed\<close>.\<close>

fun step :: "event \<Rightarrow> session \<Rightarrow> session option" where
  "step (Elapse d) s = Some (s\<lparr>now := now s + int d\<rparr>)"
| "step (FrameNavigated fid) s =
     Some (if listening s then navigationHandler fid s else s\<lparr>missed := Suc (missed s)\<rparr>)"
| "step (ClickSettles r) s =
     (if pc s = AwaitClick then
        Some (case r of
                Some e \<Rightarrow> s\<lparr>pc := Rejected e\<rparr>
              | None \<Rightarrow> s\<lparr>pc := AwaitDirectWait, waitStart := now s,
                          effects := effects s @
                            [WaitForNavigation (spage s) (NAVIGATION_WAIT_TIMEOUT (provider s))]\<rparr>)
      else None)"
| "step (DirectWaitSettles idle) s =
     (if pc s = AwaitDirectWait \<and>
         (idle \<or> waitStart s + int (NAVIGATION_WAIT_TIMEOUT (provider s)) \<le> now s)
      then Some (enterSettlement s) else None)"
| "step TimerFires s =
     (if pc s = Settling \<and> timerDue s \<le> now s
      then Some (case provider s of Hotmail \<Rightarrow> checkStability s | Gmail \<Rightarrow> intervalCallback s)
      else None)"
| "step (LogSettles r) s =
     (if pc s = AwaitLog then
        Some (case r of
                Some e \<Rightarrow> s\<lparr>pc := Rejected e\<rparr>
              | None \<Rightarrow> s\<lparr>pc := Finished, listening := False,
                          effects := effects s @ [PageOff (spage s)]\<rparr>)
      else None)"
| "step (HLogSettles k r) s =
     (if k < length (handlers s) then
        (case handlers s ! k of
           HLogging fl \<Rightarrow>
             (case r of
                Some e \<Rightarrow> Some (s\<lparr>handlers := (handlers s)[k := HThrew e]\<rparr>)
              | None \<Rightarrow>
                  (case acquire (s\<lparr>lastLoggedFrameID := Some fl\<rparr>) of
                     (h, s2) \<Rightarrow> Some (s2\<lparr>handlers := (handlers s2)[k := h]\<rparr>)))
         | _ \<Rightarrow> None)
      else None)"
| "step (HGraceFires k) s =
     (if k < length (handlers s) \<and> handlers s ! k = HGrace
      then Some (s\<lparr>handlers := (handlers s)[k := HWaiting],
                   effects := effects s @ [WaitForNavigation (spage s) 3000]\<rparr>)
      else None)"
| "step (HWaitSettles k idle) s =
     (if k < length (handlers s) \<and> handlers s ! k = HWaiting
      then Some (s\<lparr>navigationResolving := False, handlers := (handlers s)[k := HReturned]\<rparr>)
      else None)"

fun run :: "event list \<Rightarrow> session \<Rightarrow> session option" where
  "run [] s = Some s"
| "run (e # es) s = (case step e s of None \<Rightarrow> None | Some s' \<Rightarrow> run es s')"

text \<open>The errors thrown inside the event listener: the handler invocations that a rejecting
  \<open>utilities.logMessage\<close> ended. Nothing awaits the listener, so nothing catches them.\<close>

definition listenerErrors :: "session \<Rightarrow> err list" where
  "listenerErrors s = concat (map (\<lambda>h. case h of HThrew e \<Rightarrow> [e] | _ \<Rightarrow> []) (handlers s))"

text \<open>The navigation-waits in flight: the handler invocations that hold the flag.\<close>

definition holding :: "hpc \<Rightarrow> bool" where
  "holding h = (h = HGrace \<or> h = HWaiting)"

definition inFlight :: "session \<Rightarrow> nat" where
  "inFlight s = length (filter holding (handlers s))"

text \<open>The schedule of a click after which no navigation event fires. The environment
  chooses how long the click takes (\<open>c\<close>), how late the direct wait's timeout is
  delivered (\<open>w\<close>) and how late each recheck timer fires (\<open>lat k\<close>); \<open>n\<close> is the number of
  recheck timers that fire.\<close>

fun polls :: "nat \<Rightarrow> (nat \<Rightarrow> nat) \<Rightarrow> nat \<Rightarrow> event list" where
  "polls iv lat 0 = []"
| "polls iv lat (Suc n) = Elapse (iv + lat 0) # TimerFires # polls iv (\<lambda>k. lat (Suc k)) n"

definition recheckEvery :: "provider \<Rightarrow> nat" where
  "recheckEvery p = (case p of Hotmail \<Rightarrow> NAVIGATION_RECHECK_DELAY | Gmail \<Rightarrow> RECHECK_INTERVAL)"

definition quietSchedule :: "provider \<Rightarrow> nat \<Rightarrow> nat \<Rightarrow> (nat \<Rightarrow> nat) \<Rightarrow> nat \<Rightarrow> event list" where
  "quietSchedule p c w lat n =
     [Elapse c, ClickSettles None, Elapse (NAVIGATION_WAIT_TIMEOUT p + w), DirectWaitSettles False]
     @ polls (recheckEvery p) lat n @ [LogSettles None]"

text \<open>The session of a quiet click while it awaits the direct post-click wait, at the
  moment that wait times out.\<close>

definition quietAwaiting :: "provider \<Rightarrow> page \<Rightarrow> node \<Rightarrow> int \<Rightarrow> int \<Rightarrow> nat \<Rightarrow> nat \<Rightarrow> session" where
  "quietAwaiting p pg el settle t c w =
     \<lparr>provider = p, spage = pg, selement = el, SETTLE_TIMEOUT = settle,
      now = t + int c + (int (NAVIGATION_WAIT_TIMEOUT p) + int w),
      lastNavigationTime = t, navigationResolving = False,
      lastLoggedFrameID = None, listening = True,
      pc = AwaitDirectWait, waitStart = t + int c, timerDue = t,
      handlers = [],
      effects = [PageOn pg, ElemClick el (Suc 0), WaitForNavigation pg (NAVIGATION_WAIT_TIMEOUT p)],
      missed = 0\<rparr>"

text \<open>The invariants of a session: the flag is set exactly while one handler invocation
  holds it; the listener was attached before the click and stays until the end.\<close>

definition guard_ok :: "session \<Rightarrow> bool" where
  "guard_ok s = (inFlight s = (if navigationResolving s then 1 else 0))"

definition armed :: "session \<Rightarrow> bool" where
  "armed s = ((\<exists>post. effects s = PageOn (spage s) # ElemClick (selement s) 1 # post) \<and>
              (pc s \<noteq> Finished \<longrightarrow> listening s \<and> missed s = 0))"

section \<open>The world outside the utilities\<close>

text \<open>The \<open>{ selector, type }\<close> argument of the utilities; \<open>type\<close> may be left out.\<close>

record desc =
  selector :: string
  type :: "string option"

text \<open>One call of the shared error handler: \<open>handleError(i, error, label, context)\<close>.\<close>

record report =
  rep_id :: nat
  rep_error :: err
  rep_label :: jsval
  rep_context :: jsval

text \<open>Everything the utilities read from outside: the module's parameters (\<open>i\<close>, \<open>isp\<close>,
  the current page), the document (which nodes a selector or an XPath expression matches,
  or the error the query raises), how every other call settles, the draws of
  \<open>Math.random()\<close>, the readings of \<open>Date.now()\<close>, and the events the event loop delivers
  to a navigation session. All but the parameters may depend on the calls made so far.\<close>

record world =
  ctxId :: nat
  isp :: string
  currentPage :: page
  css :: "prim list \<Rightarrow> page \<Rightarrow> string \<Rightarrow> node list res"
  xpath :: "prim list \<Rightarrow> page \<Rightarrow> string \<Rightarrow> node list res"
  outerHTML :: "node \<Rightarrow> string"
  respond :: "prim list \<Rightarrow> prim \<Rightarrow> jsval res"
  randoms :: "nat \<Rightarrow> real"
  clock :: "nat \<Rightarrow> int"
  schedule :: "prim list \<Rightarrow> event list"

text \<open>What a call leaves behind: the calls made, the errors handed to the shared handler,
  how many random numbers and clock readings were consumed, and (two history variables,
  for the statements about error handling) every error that was thrown on the way, and
  those among them that were thrown inside an event listener, where nothing awaits them:
  the runtime reports them as unhandled rejections.\<close>

record run_state =
  trace :: "prim list"
  handled :: "report list"
  draws :: nat
  reads :: nat
  raised :: "err list"
  unhandled :: "err list"

type_synonym 'a io = "run_state \<Rightarrow> 'a res \<times> run_state"

definition ret :: "'a \<Rightarrow> 'a io" where
  "ret a s = (Ok a, s)"

definition throw :: "err \<Rightarrow> 'a io" where
  "throw e s = (Thrown e, s\<lparr>raised := raised s @ [e]\<rparr>)"

text \<open>\<open>await m\<close>, then go on with its value; a throw or a hang ends the sequence.\<close>

definition bnd :: "'a io \<Rightarrow> ('a \<Rightarrow> 'b io) \<Rightarrow> 'b io" where
  "bnd m f s =
     (case m s of
        (Ok a, s') \<Rightarrow> f a s'
      | (Thrown e, s') \<Rightarrow> (Thrown e, s')
      | (Hang, s') \<Rightarrow> (Hang, s'))"

text \<open>\<open>try { m } catch (error) { h error }\<close>.\<close>

definition tryCatch :: "'a io \<Rightarrow> (err \<Rightarrow> 'a io) \<Rightarrow> 'a io" where
  "tryCatch m h s =
     (case m s of
        (Ok a, s') \<Rightarrow> (Ok a, s')
      | (Thrown e, s') \<Rightarrow> h e s'
      | (Hang, s') \<Rightarrow> (Hang, s'))"

text \<open>A call \<open>p\<close> of the page that settles as \<open>r\<close>.\<close>

definition outcome :: "prim \<Rightarrow> 'a res \<Rightarrow> 'a io" where
  "outcome p r s =
     (r, s\<lparr>trace := trace s @ [p],
            raised := raised s @ (case r of Thrown e \<Rightarrow> [e] | _ \<Rightarrow> [])\<rparr>)"

text \<open>A call whose outcome the world decides.\<close>

definition perform :: "world \<Rightarrow> prim \<Rightarrow> jsval io" where
  "perform w p s = outcome p (respond w (trace s) p) s"

definition Math_random :: "world \<Rightarrow> real io" where
  "Math_random w s = (Ok (randoms w (draws s)), s\<lparr>draws := Suc (draws s)\<rparr>)"

definition Date_now :: "world \<Rightarrow> int io" where
  "Date_now w s = (Ok (clock w (reads s)), s\<lparr>reads := Suc (reads s)\<rparr>)"

text \<open>Modelled from the spec: \<open>handleError\<close>, the shared error handler, is not among the
  sources. It is the sink "accepting" an error "keyed by an opaque context identifier \<open>i\<close>
  plus a diagnostic payload": it records the call and returns.\<close>

definition handleError :: "world \<Rightarrow> err \<Rightarrow> jsval \<Rightarrow> jsval \<Rightarrow> jsval io" where
  "handleError w e label ctx s =
     (Ok Undefined,
      s\<lparr>handled := handled s @ [\<lparr>rep_id = ctxId w, rep_error = e, rep_label = label, rep_context = ctx\<rparr>]\<rparr>)"

text \<open>Modelled from the spec: the table \<open>types\<close> of selector kinds is not among the sources;
  its two entries are the kind tags the utilities use as literals elsewhere.\<close>

definition types_selector :: string where
  "types_selector = ''selector''"

definition types_xpath :: string where
  "types_xpath = ''xpath''"

definition getPage :: "world \<Rightarrow> page" where
  "getPage w = currentPage w"

text \<open>\<open>frame ?? getPage()\<close>.\<close>

definition frameOr :: "world \<Rightarrow> page option \<Rightarrow> page" where
  "frameOr w frame = (case frame of Some f \<Rightarrow> f | None \<Rightarrow> getPage w)"

text \<open>The parameter default \<open>type = 'selector'\<close>.\<close>

definition typeOf :: "desc \<Rightarrow> string" where
  "typeOf d = (case type d of Some t \<Rightarrow> t | None \<Rightarrow> ''selector'')"

subsection \<open>The page's queries\<close>

text \<open>\<open>page.$(selector)\<close>: the first matching element, or \<open>null\<close>.\<close>

definition page_query :: "world \<Rightarrow> page \<Rightarrow> string \<Rightarrow> jsval io" where
  "page_query w pg sel s =
     outcome (Query pg sel)
       (map_res (\<lambda>ns. case ns of [] \<Rightarrow> Null | n # _ \<Rightarrow> ElementHandle n) (css w (trace s) pg sel)) s"

text \<open>\<open>page.$$(selector)\<close>: the array of all matching elements.\<close>

definition page_queryAll :: "world \<Rightarrow> page \<Rightarrow> string \<Rightarrow> jsval io" where
  "page_queryAll w pg sel s =
     outcome (QueryAll pg sel)
       (map_res (\<lambda>ns. Array (map ElementHandle ns)) (css w (trace s) pg sel)) s"

text \<open>\<open>page.$x(expression)\<close>: the array of all matching elements.\<close>

definition page_x :: "world \<Rightarrow> page \<Rightarrow> string \<Rightarrow> jsval io" where
  "page_x w pg sel s =
     outcome (QueryXPath pg sel)
       (map_res (\<lambda>ns. Array (map ElementHandle ns)) (xpath w (trace s) pg sel)) s"

text \<open>\<open>page.evaluate\<close> of the first-node XPath lookup: \<open>null\<close> when there is no node,
  the serialised node (an empty object) otherwise.\<close>

definition evaluateXPathFirst :: "world \<Rightarrow> page \<Rightarrow> string \<Rightarrow> jsval io" where
  "evaluateXPathFirst w pg sel s =
     outcome (EvaluateXPathFirst pg sel)
       (map_res (\<lambda>ns. case ns of [] \<Rightarrow> Null | n # _ \<Rightarrow> Object []) (xpath w (trace s) pg sel)) s"

text \<open>\<open>page.evaluateHandle\<close> of the first-node XPath lookup: an element handle, or a
  handle to \<open>null\<close>.\<close>

definition evaluateHandleXPathFirst :: "world \<Rightarrow> page \<Rightarrow> string \<Rightarrow> jsval io" where
  "evaluateHandleXPathFirst w pg sel s =
     outcome (EvaluateHandleXPathFirst pg sel)
       (map_res (\<lambda>ns. case ns of [] \<Rightarrow> JSHandle Null | n # _ \<Rightarrow> ElementHandle n)
        (xpath w (trace s) pg sel)) s"

text \<open>\<open>page.evaluateHandle\<close> of the iterator loop: a handle to the array of the
  \<open>outerHTML\<close> of every matching node.\<close>

definition evaluateHandleXPathAll :: "world \<Rightarrow> page \<Rightarrow> string \<Rightarrow> jsval io" where
  "evaluateHandleXPathAll w pg sel s =
     outcome (EvaluateHandleXPathAll pg sel)
       (map_res (\<lambda>ns. JSHandle (Array (map (\<lambda>n. Str (outerHTML w n)) ns)))
        (xpath w (trace s) pg sel)) s"

text \<open>\<open>handle.asElement()\<close>.\<close>

definition asElement :: "jsval \<Rightarrow> jsval" where
  "asElement h = (case h of ElementHandle n \<Rightarrow> ElementHandle n | _ \<Rightarrow> Null)"

subsection \<open>Methods of a handle\<close>

text \<open>A method of an element handle called on a value that has none throws a
  \<open>TypeError\<close>, whose message depends on whether the value is \<open>null\<close>, \<open>undefined\<close> or
  something else; \<open>evaluate\<close> exists on every handle.\<close>

definition notAFunction :: "jsval \<Rightarrow> string \<Rightarrow> err" where
  "notAFunction v m =
     (case v of
        Null \<Rightarrow> TypeError (''Cannot read properties of null (reading '' @ [CHR 0x27] @ m @
                            [CHR 0x27] @ '')'')
      | Undefined \<Rightarrow> TypeError (''Cannot read properties of undefined (reading '' @ [CHR 0x27] @
                                 m @ [CHR 0x27] @ '')'')
      | _ \<Rightarrow> TypeError (''element.'' @ m @ '' is not a function''))"

definition elementFocus :: "world \<Rightarrow> jsval \<Rightarrow> jsval io" where
  "elementFocus w el =
     (case el of ElementHandle n \<Rightarrow> perform w (ElemFocus n) | _ \<Rightarrow> throw (notAFunction el ''focus''))"

definition elementType :: "world \<Rightarrow> jsval \<Rightarrow> char \<Rightarrow> int \<Rightarrow> jsval io" where
  "elementType w el c delay =
     (case el of ElementHandle n \<Rightarrow> perform w (ElemType n c delay) | _ \<Rightarrow> throw (notAFunction el ''type''))"

definition elementPress :: "world \<Rightarrow> jsval \<Rightarrow> string \<Rightarrow> jsval io" where
  "elementPress w el key =
     (case el of ElementHandle n \<Rightarrow> perform w (ElemPress n key) | _ \<Rightarrow> throw (notAFunction el ''press''))"

definition elementClick :: "world \<Rightarrow> jsval \<Rightarrow> int \<Rightarrow> jsval io" where
  "elementClick w el clickCount =
     (case el of ElementHandle n \<Rightarrow> perform w (ElemClick n clickCount)
      | _ \<Rightarrow> throw (notAFunction el ''click''))"

definition handleEvaluate :: "world \<Rightarrow> jsval \<Rightarrow> string \<Rightarrow> jsval list \<Rightarrow> jsval io" where
  "handleEvaluate w el script args =
     (case el of
        ElementHandle n \<Rightarrow> perform w (HandleEvaluate el script args)
      | JSHandle v \<Rightarrow> perform w (HandleEvaluate el script args)
      | _ \<Rightarrow> throw (notAFunction el ''evaluate''))"

section \<open>globalHelpers\<close>

text \<open>\<open>randomNumber(min, max)\<close>, with \<open>r\<close> the draw of \<open>Math.random()\<close>.\<close>

definition randomNumber :: "real \<Rightarrow> int \<Rightarrow> int \<Rightarrow> int" where
  "randomNumber r min0 max0 =
     (case (if min0 > max0 then (max0, min0) else (min0, max0)) of
        (min1, max1) \<Rightarrow> \<lfloor>r * real_of_int (max1 - min1 + 1)\<rfloor> + min1)"

section \<open>domUtils\<close>

definition fetchDOM :: "world \<Rightarrow> string \<Rightarrow> jsval list \<Rightarrow> jsval io" where
  "fetchDOM w callback args =
     tryCatch
       (bnd (perform w (Evaluate (getPage w) callback args))
          (\<lambda>result. ret (if result \<noteq> Undefined then result else Null)))
       (\<lambda>error. handleError w error Undefined Undefined)"

definition checkElement :: "world \<Rightarrow> desc \<Rightarrow> jsval io" where
  "checkElement w d =
     tryCatch
       (if typeOf d = types_selector then
          bnd (page_query w (getPage w) (selector d)) (\<lambda>found. ret (Bool (found \<noteq> Null)))
        else if typeOf d = types_xpath then
          bnd (evaluateXPathFirst w (getPage w) (selector d)) (\<lambda>found. ret (Bool (found \<noteq> Null)))
        else
          throw (Error (''Unsupported selector type: '' @ typeOf d @
                        ''. Expected 'selector' or 'xpath'.'')))
       (\<lambda>error. handleError w error Null
                   (Object [(''selector'', Str (selector d)), (''type'', Str (typeOf d))]))"

definition checkElementByXpath :: "world \<Rightarrow> string \<Rightarrow> jsval io" where
  "checkElementByXpath w xpathExpression =
     tryCatch
       (checkElement w \<lparr>selector = xpathExpression, type = Some types_xpath\<rparr>)
       (\<lambda>error. handleError w error Null
                   (Object [(''xpathExpression'', Str xpathExpression), (''type'', Str types_xpath)]))"

definition checkElementBySelector :: "world \<Rightarrow> string \<Rightarrow> jsval io" where
  "checkElementBySelector w selectorExpression =
     tryCatch
       (checkElement w \<lparr>selector = selectorExpression, type = Some types_selector\<rparr>)
       (\<lambda>error. handleError w error Null
                   (Object [(''selectorExpression'', Str selectorExpression),
                            (''type'', Str types_selector)]))"

text \<open>The \<open>switch\<close> of \<open>getElement\<close>: the element each selector kind resolves to.\<close>

definition resolveElement :: "world \<Rightarrow> page \<Rightarrow> string \<Rightarrow> string \<Rightarrow> jsval io" where
  "resolveElement w pg ty sel =
     (if ty = ''id'' then page_query w pg (''[id='' @ [CHR 0x22] @ sel @ [CHR 0x22] @ '']'')
      else if ty = ''selector'' then page_query w pg sel
      else if ty = ''xpath'' then
        bnd (evaluateHandleXPathFirst w pg sel) (\<lambda>elementHandle. ret (asElement elementHandle))
      else if ty = ''class'' then page_query w pg (''.'' @ sel)
      else if ty = ''allSelector'' then page_queryAll w pg sel
      else if ty = ''allXpath'' then
        bnd (evaluateHandleXPathAll w pg sel)
          (\<lambda>elements. bnd (handleEvaluate w elements ''nodes.map(node => node)'' [])
             (\<lambda>converted. ret elements))
      else throw (Error (''Unsupported selector type: '' @ ty @ ''.'')))"

definition getElement :: "world \<Rightarrow> desc \<Rightarrow> page option \<Rightarrow> jsval io" where
  "getElement w d frame =
     tryCatch
       (bnd (resolveElement w (frameOr w frame) (typeOf d) (selector d))
          (\<lambda>element. ret (if truthy element then element else Null)))
       (\<lambda>error. handleError w error Null
                   (Object [(''selector'', Str (selector d)), (''type'', Str (typeOf d))]))"

text \<open>The function each \<open>case\<close> of \<open>getAttribute\<close> evaluates on the element.\<close>

definition attributeScript :: "string \<Rightarrow> string \<times> jsval list" where
  "attributeScript attribute =
     (if attribute = ''name'' then (''el?.name || null'', [])
      else if attribute = ''value'' then (''el?.value || null'', [])
      else if attribute = ''href'' then (''el?.href || null'', [])
      else if attribute = ''text'' then (''el?.innerText || el.textContent || null'', [])
      else if attribute = ''html'' then (''el?.innerHTML || null'', [])
      else (''el?.getAttribute(attr) || null'', [Str attribute]))"

definition getAttribute :: "world \<Rightarrow> desc \<Rightarrow> string \<Rightarrow> jsval io" where
  "getAttribute w d attribute =
     tryCatch
       (bnd (getElement w \<lparr>selector = selector d, type = Some (typeOf d)\<rparr> None)
          (\<lambda>element.
             if \<not> truthy element
             then throw (Error (''No element found with selector: '' @ selector d))
             else handleEvaluate w element (fst (attributeScript attribute))
                    (snd (attributeScript attribute))))
       (\<lambda>error. handleError w error Null
                   (Object [(''selector'', Str (selector d)), (''type'', Str (typeOf d)),
                            (''attribute'', Str attribute)]))"

section \<open>The action utilities\<close>

text \<open>The error thrown when the element is not found.\<close>

definition notFound :: "string \<Rightarrow> string \<Rightarrow> err" where
  "notFound ty sel =
     Error (''Element with '' @ (if ty = types_selector then ''Selector'' else ''XPath'') @
            '' selector '' @ [CHR 0x27] @ sel @ [CHR 0x27] @ '' not found'')"

subsection \<open>typeText, keyPress\<close>

text \<open>\<open>text.split("\n")\<close>; the result is never empty.\<close>

fun split_lines :: "string \<Rightarrow> string list" where
  "split_lines [] = [[]]"
| "split_lines (c # cs) =
     (if c = CHR 0x0A then [] # split_lines cs
      else (case split_lines cs of l # ls \<Rightarrow> (c # l) # ls | [] \<Rightarrow> [[c]]))"

text \<open>\<open>text ? text.toString() : ""\<close>, for a text that is a string.\<close>

definition toText :: "string \<Rightarrow> string" where
  "toText text = (if text \<noteq> [] then text else [])"

text \<open>\<open>page.evaluate(el => document.activeElement === el, element)\<close>.\<close>

definition evaluateIsActive :: "world \<Rightarrow> page \<Rightarrow> jsval \<Rightarrow> jsval io" where
  "evaluateIsActive w pg el =
     (case el of
        ElementHandle n \<Rightarrow> perform w (EvaluateIsActive pg n)
      | _ \<Rightarrow> perform w (Evaluate pg ''document.activeElement === el'' [el]))"

definition ensureFocus :: "world \<Rightarrow> page \<Rightarrow> jsval \<Rightarrow> jsval io" where
  "ensureFocus w pg el =
     bnd (evaluateIsActive w pg el)
       (\<lambda>isFocused. if \<not> truthy isFocused then elementFocus w el else ret Undefined)"

text \<open>The inner loop, over the characters of one line.\<close>

fun typeChars :: "world \<Rightarrow> page \<Rightarrow> jsval \<Rightarrow> string \<Rightarrow> jsval io" where
  "typeChars w pg el [] = ret Undefined"
| "typeChars w pg el (c # cs) =
     bnd (ensureFocus w pg el)
       (\<lambda>_. bnd (Math_random w)
          (\<lambda>r. bnd (elementType w el c (randomNumber r 1 2))
             (\<lambda>_. typeChars w pg el cs)))"

text \<open>The outer loop, over the lines still to type; \<open>lines\<close> is the whole array, whose last
  entry every line is compared with.\<close>

fun typeLines :: "world \<Rightarrow> page \<Rightarrow> jsval \<Rightarrow> string list \<Rightarrow> string list \<Rightarrow> jsval io" where
  "typeLines w pg el lines [] = ret Undefined"
| "typeLines w pg el lines (line # rest) =
     bnd (typeChars w pg el line)
       (\<lambda>_. bnd (if line \<noteq> last lines then elementPress w el ''Enter'' else ret Undefined)
          (\<lambda>_. typeLines w pg el lines rest))"

definition typeText :: "world \<Rightarrow> desc \<Rightarrow> string \<Rightarrow> page option \<Rightarrow> jsval io" where
  "typeText w d text frame =
     tryCatch
       (bnd (getElement w \<lparr>selector = selector d, type = Some (typeOf d)\<rparr> (Some (frameOr w frame)))
          (\<lambda>element.
             if \<not> truthy element then throw (notFound (typeOf d) (selector d))
             else bnd (elementFocus w element)
                    (\<lambda>_. typeLines w (frameOr w frame) element
                            (split_lines (toText text)) (split_lines (toText text)))))
       (\<lambda>error. handleError w error Null
                   (Object [(''selector'', Str (selector d)), (''type'', Str (typeOf d)),
                            (''text'', Str text)]))"

definition typeTextByXpath :: "world \<Rightarrow> string \<Rightarrow> string \<Rightarrow> jsval io" where
  "typeTextByXpath w xpathExpression text =
     tryCatch
       (bnd (typeText w \<lparr>selector = xpathExpression, type = Some types_xpath\<rparr> text None)
          (\<lambda>_. ret Undefined))
       (\<lambda>error. handleError w error Null
                   (Object [(''xpathExpression'', Str xpathExpression), (''type'', Str types_xpath),
                            (''text'', Str text)]))"

definition typeTextBySelector :: "world \<Rightarrow> string \<Rightarrow> string \<Rightarrow> jsval io" where
  "typeTextBySelector w selectorExpression text =
     tryCatch
       (bnd (typeText w \<lparr>selector = selectorExpression, type = Some types_selector\<rparr> text None)
          (\<lambda>_. ret Undefined))
       (\<lambda>error. handleError w error Null
                   (Object [(''selectorExpression'', Str selectorExpression),
                            (''type'', Str types_selector), (''text'', Str text)]))"

definition keyPress :: "world \<Rightarrow> desc \<Rightarrow> string \<Rightarrow> jsval io" where
  "keyPress w d keyButton =
     tryCatch
       (bnd (getElement w \<lparr>selector = selector d, type = Some (typeOf d)\<rparr> None)
          (\<lambda>element.
             if \<not> truthy element then throw (notFound (typeOf d) (selector d))
             else bnd (elementFocus w element)
                    (\<lambda>_. bnd (perform w (KeyboardPress (getPage w) keyButton))
                            (\<lambda>_. ret Undefined))))
       (\<lambda>error. handleError w error (Str ''keyPress'') Undefined)"

subsection \<open>Clicks and navigation\<close>

text \<open>A navigation session inside a call: the event loop delivers the events of the
  world's schedule, and the function settles as the session ends. A schedule that leaves
  the session short of its end, or holds an event that cannot happen, is a call that never
  settles. An \<open>element\<close> without a \<open>click\<close> method throws after the listener is attached. The
  timeouts of the navigation waits are swallowed inside the session: they are no errors
  of the call. An error thrown inside the event listener is thrown during the call but
  not to the function: it is raised and stays unhandled.\<close>

definition strayed :: "session \<Rightarrow> run_state \<Rightarrow> run_state" where
  "strayed q s = s\<lparr>trace := trace s @ effects q, raised := raised s @ listenerErrors q,
                    unhandled := unhandled s @ listenerErrors q\<rparr>"

definition navigate :: "world \<Rightarrow> provider \<Rightarrow> page \<Rightarrow> jsval \<Rightarrow> int \<Rightarrow> int \<Rightarrow> jsval io" where
  "navigate w p pg el settle t s =
     (case el of
        ElementHandle n \<Rightarrow>
          (case run (schedule w (trace s)) (begin_session p pg n settle t) of
             None \<Rightarrow> (Hang, s)
           | Some q \<Rightarrow>
               (case pc q of
                  Finished \<Rightarrow> (Ok Undefined, strayed q s)
                | Rejected e \<Rightarrow>
                    (Thrown e, (strayed q s)\<lparr>raised := raised (strayed q s) @ [e]\<rparr>)
                | _ \<Rightarrow> (Hang, strayed q s)))
      | _ \<Rightarrow> outcome (PageOn pg) (Thrown (notAFunction el ''click'')) s)"

definition handleHotmailNavigation :: "world \<Rightarrow> page \<Rightarrow> jsval \<Rightarrow> int \<Rightarrow> jsval io" where
  "handleHotmailNavigation w pg el settle =
     bnd (Date_now w) (\<lambda>t. navigate w Hotmail pg el settle t)"

text \<open>The Gmail function reads no clock and has no settle timeout: both fields of its
  session are unused.\<close>

definition handleGmailNavigation :: "world \<Rightarrow> page \<Rightarrow> jsval \<Rightarrow> jsval io" where
  "handleGmailNavigation w pg el = navigate w Gmail pg el 0 0"

definition clickElement :: "world \<Rightarrow> desc \<Rightarrow> page option \<Rightarrow> int \<Rightarrow> jsval io" where
  "clickElement w d frame settle =
     tryCatch
       (bnd (getElement w \<lparr>selector = selector d, type = Some (typeOf d)\<rparr> (Some (frameOr w frame)))
          (\<lambda>element.
             if \<not> truthy element then throw (notFound (typeOf d) (selector d))
             else if isp w = ''hotmail'' then
               handleHotmailNavigation w (frameOr w frame) element settle
             else if isp w = ''gmail'' then
               handleGmailNavigation w (frameOr w frame) element
             else ret Undefined))
       (\<lambda>error. handleError w error Null
                   (Object [(''selector'', Str (selector d)), (''type'', Str (typeOf d))]))"

definition clickElementByXpath :: "world \<Rightarrow> string \<Rightarrow> jsval io" where
  "clickElementByXpath w xpathExpression =
     tryCatch
       (bnd (clickElement w \<lparr>selector = xpathExpression, type = Some types_xpath\<rparr> None 10000)
          (\<lambda>_. ret Undefined))
       (\<lambda>error. handleError w error Null
                   (Object [(''xpathExpression'', Str xpathExpression), (''type'', Str types_xpath)]))"

definition clickElementBySelector :: "world \<Rightarrow> string \<Rightarrow> jsval io" where
  "clickElementBySelector w selectorExpression =
     tryCatch
       (bnd (clickElement w \<lparr>selector = selectorExpression, type = Some types_selector\<rparr> None 10000)
          (\<lambda>_. ret Undefined))
       (\<lambda>error. handleError w error Null
                   (Object [(''selectorExpression'', Str selectorExpression),
                            (''type'', Str types_selector)]))"

subsection \<open>clearInput\<close>

definition clearInput :: "world \<Rightarrow> desc \<Rightarrow> page option \<Rightarrow> jsval io" where
  "clearInput w d frame =
     tryCatch
       (bnd (getElement w \<lparr>selector = selector d, type = Some (typeOf d)\<rparr> frame)
          (\<lambda>element.
             if \<not> truthy element then throw (notFound (typeOf d) (selector d))
             else bnd (Math_random w)
                    (\<lambda>r. bnd (elementClick w element (randomNumber r 3 6))
                       (\<lambda>_. bnd (perform w RandomWait)
                          (\<lambda>_. bnd (elementPress w element ''Backspace'')
                                  (\<lambda>_. ret Undefined))))))
       (\<lambda>error. handleError w error Null
                   (Object [(''selector'', Str (selector d)), (''type'', Str (typeOf d))]))"

definition clearInputBySelector :: "world \<Rightarrow> string \<Rightarrow> jsval io" where
  "clearInputBySelector w selectorExpression =
     tryCatch
       (bnd (clearInput w \<lparr>selector = selectorExpression, type = Some types_selector\<rparr> None)
          (\<lambda>_. ret Undefined))
       (\<lambda>error. handleError w error Null
                   (Object [(''selectorExpression'', Str selectorExpression),
                            (''type'', Str types_selector)]))"

text \<open>The \<open>catch\<close> block of \<open>clearInputByXpath\<close> names \<open>selectorExpression\<close>, which is not
  in scope: building the handler's argument throws a \<open>ReferenceError\<close>.\<close>

definition clearInputByXpath :: "world \<Rightarrow> string \<Rightarrow> jsval io" where
  "clearInputByXpath w xpathExpression =
     tryCatch
       (bnd (clearInput w \<lparr>selector = xpathExpression, type = Some types_xpath\<rparr> None)
          (\<lambda>_. ret Undefined))
       (\<lambda>error. throw (ReferenceError ''selectorExpression is not defined''))"

subsection \<open>selectOption\<close>

text \<open>The dropdown's \<open>name\<close>, \<open>id\<close> or \<open>className\<close>, as the template literal prints it. In a
  document the value is a string; of the other values only those with a fixed print are
  printed here.\<close>

definition dropdownName :: "jsval \<Rightarrow> string" where
  "dropdownName v =
     (case v of
        Str nm \<Rightarrow> nm
      | Undefined \<Rightarrow> ''undefined''
      | Null \<Rightarrow> ''null''
      | Bool b \<Rightarrow> (if b then ''true'' else ''false'')
      | Object kvs \<Rightarrow> ''[object Object]''
      | _ \<Rightarrow> [])"

definition selectOption :: "world \<Rightarrow> desc \<Rightarrow> string \<Rightarrow> jsval io" where
  "selectOption w d optionValue =
     tryCatch
       (bnd
          (if typeOf d = ''selector'' then perform w (PageSelect (getPage w) (selector d) optionValue)
           else if typeOf d = ''xpath'' then
             bnd (page_x w (getPage w) (selector d))
               (\<lambda>found.
                  case found of
                    Array (elementHandle # _) \<Rightarrow>
                      bnd (handleEvaluate w elementHandle ''el.name || el.id || el.className'' [])
                        (\<lambda>dropdownSelector.
                           perform w (PageSelect (getPage w)
                             (''[name='' @ [CHR 0x22] @ dropdownName dropdownSelector @ [CHR 0x22] @ '']'')
                             optionValue))
                  | _ \<Rightarrow> throw (Error (''Dropdown with XPath '' @ [CHR 0x27] @ selector d @
                                        [CHR 0x27] @ '' not found.'')))
           else throw (Error (''Unsupported selector type: '' @ typeOf d @
                              ''. Expected 'selector' or 'xpath'.'')))
          (\<lambda>_. bnd (perform w (LogMessage (''Successfully selected option with value '' @
                              [CHR 0x27] @ optionValue @ [CHR 0x27] @ '' from dropdown.'')))
                  (\<lambda>_. ret Undefined)))
       (\<lambda>error. handleError w error Null
                   (Object [(''selector'', Str (selector d)), (''type'', Str (typeOf d)),
                            (''optionValue'', Str optionValue)]))"

subsection \<open>Scrolling\<close>

definition scrollToBottomPage :: "world \<Rightarrow> jsval io" where
  "scrollToBottomPage w =
     tryCatch
       (bnd (perform w (EvaluateScrollToBottom (getPage w))) (\<lambda>_. ret Undefined))
       (\<lambda>error. handleError w error Undefined Undefined)"

text \<open>The two swaps \<open>if (min > max) [min, max] = [max, min]\<close>: the pair \<open>(min, max)\<close>
  afterwards.\<close>

definition ordered :: "real \<Rightarrow> real \<Rightarrow> real \<times> real" where
  "ordered min0 max0 = (if min0 > max0 then (max0, min0) else (min0, max0))"

text \<open>\<open>Date.now() + Math.random() * (maxScrollingTime - minScrollingTime) +
  minScrollingTime\<close>, on the bounds as passed.\<close>

definition scrollEndTime :: "int \<Rightarrow> real \<Rightarrow> real \<Rightarrow> real \<Rightarrow> real" where
  "scrollEndTime t r maxScrollingTime minScrollingTime =
     (case ordered minScrollingTime maxScrollingTime of
        (minT, maxT) \<Rightarrow> real_of_int t + r * (maxT - minT) + minT)"

definition randomScroll :: "world \<Rightarrow> real \<Rightarrow> real \<Rightarrow> real \<Rightarrow> real \<Rightarrow> jsval io" where
  "randomScroll w maxScrollingTime minScrollingTime maxScrollingSpeed minScrollingSpeed =
     tryCatch
       (bnd (Date_now w)
          (\<lambda>t. bnd (Math_random w)
             (\<lambda>r. bnd (perform w
                         (EvaluateRandomScroll (getPage w)
                            (snd (ordered minScrollingSpeed maxScrollingSpeed))
                            (fst (ordered minScrollingSpeed maxScrollingSpeed))
                            (scrollEndTime t r maxScrollingTime minScrollingTime)))
                (\<lambda>_. bnd (perform w RandomWait) (\<lambda>_. ret Undefined)))))
       (\<lambda>error. handleError w error Undefined Undefined)"

text \<open>\<open>page.evaluate\<close> receives \<open>element.selector, element.type, offset, maxScrollingSpeed,
  minScrollingSpeed, endTime\<close>, in this order, for a callback whose parameters are
  \<open>selector, type, maxScrollingSpeed, minScrollingSpeed, offset, endTime\<close>: the arguments of
  \<open>EvaluateScrollToElement\<close> are the callback's parameters. The \<open>null\<close> speed passed to
  \<open>randomScroll\<close> when the element is missing counts as 0 in its comparisons and sums.\<close>

definition scrollToElement ::
  "world \<Rightarrow> desc \<Rightarrow> real \<Rightarrow> real \<Rightarrow> real \<Rightarrow> real \<Rightarrow> real \<Rightarrow> jsval io" where
  "scrollToElement w element maxScrollingTime minScrollingTime maxScrollingSpeed minScrollingSpeed offset =
     tryCatch
       (bnd (Date_now w)
          (\<lambda>t. bnd (Math_random w)
             (\<lambda>r. bnd (checkElement w element)
                (\<lambda>targetElement.
                   if truthy targetElement then
                     bnd (perform w
                            (EvaluateScrollToElement (getPage w) (selector element) (type element)
                               offset
                               (snd (ordered minScrollingSpeed maxScrollingSpeed))
                               (fst (ordered minScrollingSpeed maxScrollingSpeed))
                               (scrollEndTime t r maxScrollingTime minScrollingTime)))
                       (\<lambda>_. ret Undefined)
                   else
                     bnd (perform w (LogMessage ''Failed to locate element''))
                       (\<lambda>_. randomScroll w 10000 6000 2000 0)))))
       (\<lambda>error. handleError w error Undefined Undefined)"

subsection \<open>The script scrollToElement runs in the page\<close>

text \<open>What the script does to the window.\<close>

datatype window_call =
    ScrollTo real real
  | Delay real
  | ScrollIntoView

text \<open>What the script reads in the page: the top of the bounding rectangle of the element
  a selector of a kind finds (if any), the readings of \<open>Date.now()\<close> at the loop test, and
  the draws of \<open>Math.random()\<close>.\<close>

record in_page =
  rectTop :: "string option \<Rightarrow> string \<Rightarrow> real option"
  readings :: "real list"
  samples :: "real list"

text \<open>The \<open>while (Date.now() < endTime)\<close> loop: each test consumes one clock reading and
  each turn two random draws. \<open>None\<close> when the readings or the draws run out while the
  loop is still running.\<close>

fun dwell :: "real \<Rightarrow> real \<Rightarrow> real \<Rightarrow> real \<Rightarrow> real list \<Rightarrow> real list \<Rightarrow> window_call list option" where
  "dwell initialScrollOffset maxScrollingSpeed minScrollingSpeed endTime [] rs = None"
| "dwell initialScrollOffset maxScrollingSpeed minScrollingSpeed endTime (t # ts) rs =
     (if t < endTime then
        (case rs of
           r1 # r2 # rs' \<Rightarrow>
             (case dwell initialScrollOffset maxScrollingSpeed minScrollingSpeed endTime ts rs' of
                None \<Rightarrow> None
              | Some later \<Rightarrow>
                  Some (ScrollTo 0 (initialScrollOffset + (real_of_int \<lfloor>r1 * (550 - 400 + 1)\<rfloor> + 400))
                        # Delay (r2 * (maxScrollingSpeed - minScrollingSpeed) + minScrollingSpeed)
                        # later))
         | _ \<Rightarrow> None)
      else Some [])"

text \<open>The callback, with its parameters in its own order and under its own names.\<close>

definition scrollToElementScript ::
  "in_page \<Rightarrow> string \<Rightarrow> string option \<Rightarrow> real \<Rightarrow> real \<Rightarrow> real \<Rightarrow> real \<Rightarrow> window_call list option" where
  "scrollToElementScript doc selector0 type0 maxScrollingSpeed minScrollingSpeed offset endTime =
     (case rectTop doc type0 selector0 of
        None \<Rightarrow> Some []
      | Some targetPosition \<Rightarrow>
          (case dwell (targetPosition - offset) maxScrollingSpeed minScrollingSpeed endTime
                  (readings doc) (samples doc) of
             None \<Rightarrow> None
           | Some loop \<Rightarrow>
               Some (ScrollTo 0 (targetPosition - offset) # Delay 1500 # loop @ [ScrollIntoView])))"

text \<open>The window calls a recorded \<open>page.evaluate\<close> of that script makes in a page.\<close>

definition inPage :: "in_page \<Rightarrow> prim \<Rightarrow> window_call list option" where
  "inPage doc p =
     (case p of
        EvaluateScrollToElement pg sel ty a b c d \<Rightarrow> scrollToElementScript doc sel ty a b c d
      | _ \<Rightarrow> Some [])"

subsection \<open>The calls of the layer\<close>

text \<open>A call of one of the functions the two modules export, with its arguments. Where
  the function destructures its first parameter (\<open>{ selector, type }\<close>), or reads the
  fields of its argument, the argument is an object (\<open>Some\<close>) or \<open>undefined\<close> or \<open>null\<close>
  (\<open>None\<close>).\<close>

datatype operation =
    TypeTextByXpath string string
  | KeyPress "desc option" string
  | TypeTextBySelector string string
  | TypeText "desc option" string "page option"
  | ClickElementByXpath string
  | ClickElementBySelector string
  | HandleHotmailNavigation page jsval int
  | HandleGmailNavigation page jsval
  | ClickElement "desc option" "page option" int
  | ClearInputBySelector string
  | ClearInputByXpath string
  | ClearInput "desc option" "page option"
  | SelectOption "desc option" string
  | ScrollToBottomPage
  | RandomScroll real real real real
  | ScrollToElement "desc option" real real real real real
  | FetchDOM string "jsval list"
  | CheckElementByXpath string
  | CheckElementBySelector string
  | CheckElement "desc option"
  | GetElement "desc option" "page option"
  | GetAttribute "desc option" string

text \<open>Binding the parameter \<open>{ selector, type }\<close>: it happens when the function is called,
  before its body and outside its \<open>try\<close>, and throws when the argument is \<open>undefined\<close> or
  \<open>null\<close>.\<close>

definition destructured :: "desc option \<Rightarrow> (desc \<Rightarrow> jsval io) \<Rightarrow> jsval io" where
  "destructured arg body =
     (case arg of
        None \<Rightarrow> throw (TypeError
                  ''Cannot destructure property 'selector' of 'undefined' as it is undefined.'')
      | Some d \<Rightarrow> body d)"

text \<open>\<open>scrollToElement\<close> does not destructure its argument: with no object it computes its
  end time and then calls \<open>checkElement\<close>, whose parameter cannot be bound, inside its own
  \<open>try\<close>.\<close>

fun invoke :: "world \<Rightarrow> operation \<Rightarrow> jsval io" where
  "invoke w (TypeTextByXpath x text) = typeTextByXpath w x text"
| "invoke w (KeyPress arg k) = destructured arg (\<lambda>d. keyPress w d k)"
| "invoke w (TypeTextBySelector x text) = typeTextBySelector w x text"
| "invoke w (TypeText arg text frame) = destructured arg (\<lambda>d. typeText w d text frame)"
| "invoke w (ClickElementByXpath x) = clickElementByXpath w x"
| "invoke w (ClickElementBySelector x) = clickElementBySelector w x"
| "invoke w (HandleHotmailNavigation pg el settle) = handleHotmailNavigation w pg el settle"
| "invoke w (HandleGmailNavigation pg el) = handleGmailNavigation w pg el"
| "invoke w (ClickElement arg frame settle) = destructured arg (\<lambda>d. clickElement w d frame settle)"
| "invoke w (ClearInputBySelector x) = clearInputBySelector w x"
| "invoke w (ClearInputByXpath x) = clearInputByXpath w x"
| "invoke w (ClearInput arg frame) = destructured arg (\<lambda>d. clearInput w d frame)"
| "invoke w (SelectOption arg v) = destructured arg (\<lambda>d. selectOption w d v)"
| "invoke w ScrollToBottomPage = scrollToBottomPage w"
| "invoke w (RandomScroll a b c d) = randomScroll w a b c d"
| "invoke w (ScrollToElement (Some el) a b c d off) = scrollToElement w el a b c d off"
| "invoke w (ScrollToElement None a b c d off) =
     tryCatch
       (bnd (Date_now w)
          (\<lambda>t. bnd (Math_random w)
             (\<lambda>r. bnd (destructured None (checkElement w)) (\<lambda>targetElement. ret Undefined))))
       (\<lambda>error. handleError w error Undefined Undefined)"
| "invoke w (FetchDOM cb args) = fetchDOM w cb args"
| "invoke w (CheckElementByXpath x) = checkElementByXpath w x"
| "invoke w (CheckElementBySelector x) = checkElementBySelector w x"
| "invoke w (CheckElement arg) = destructured arg (checkElement w)"
| "invoke w (GetElement arg frame) = destructured arg (\<lambda>d. getElement w d frame)"
| "invoke w (GetAttribute arg a) = destructured arg (\<lambda>d. getAttribute w d a)"

text \<open>The state before a call, and a world in which every call succeeds: every selector
  matches the single node 1 except those listed as matching nothing, the element keeps the
  focus, \<open>Math.random()\<close> draws \<open>r\<close>, and the clock reads \<open>t\<close>.\<close>

definition fresh :: run_state where
  "fresh = \<lparr>trace = [], handled = [], draws = 0, reads = 0, raised = [], unhandled = []\<rparr>"

definition calm :: "string list \<Rightarrow> real \<Rightarrow> int \<Rightarrow> world" where
  "calm missing r t =
     \<lparr>ctxId = 0, isp = ''hotmail'', currentPage = 0,
      css = (\<lambda>tr pg sel. Ok (if sel \<in> set missing then [] else [1])),
      xpath = (\<lambda>tr pg sel. Ok (if sel \<in> set missing then [] else [1])),
      outerHTML = (\<lambda>n. ''<p></p>''),
      respond = (\<lambda>tr p. Ok (case p of EvaluateIsActive pg n \<Rightarrow> Bool True | _ \<Rightarrow> Undefined)),
      randoms = (\<lambda>k. r), clock = (\<lambda>k. t), schedule = (\<lambda>tr. [])\<rparr>"

subsection \<open>What a call does\<close>





text \<open>What \<open>typeText\<close> sends when every call succeeds and the element keeps the focus:
  the keystrokes of a line, and the keystrokes of the lines \<open>rest\<close> of a text whose lines are
  \<open>ls\<close>, each followed by Enter when it differs from the last line of \<open>ls\<close>.\<close>

definition keystrokes :: "page \<Rightarrow> node \<Rightarrow> int \<Rightarrow> string \<Rightarrow> prim list" where
  "keystrokes pg n k line = concat (map (\<lambda>c. [EvaluateIsActive pg n, ElemType n c k]) line)"

definition typed :: "page \<Rightarrow> node \<Rightarrow> int \<Rightarrow> string list \<Rightarrow> string list \<Rightarrow> prim list" where
  "typed pg n k ls rest =
     concat (map (\<lambda>line. keystrokes pg n k line @
                          (if line \<noteq> last ls then [ElemPress n ''Enter''] else [])) rest)"

text \<open>A call that returns \<open>v\<close> with nothing thrown on the way and the shared handler not
  called.\<close>

definition resolvesTo :: "'a io \<Rightarrow> run_state \<Rightarrow> 'a \<Rightarrow> bool" where
  "resolvesTo m s v =
     (fst (m s) = Ok v \<and> handled (snd (m s)) = handled s \<and> raised (snd (m s)) = raised s)"

subsection \<open>Error handling\<close>


text \<open>A computation that calls no handler and runs no event listener: it leaves \<open>handled\<close>
  and \<open>unhandled\<close> alone and raises exactly the error it throws.\<close>

definition plain :: "'a io \<Rightarrow> bool" where
  "plain m = (\<forall>s. handled (snd (m s)) = handled s \<and> unhandled (snd (m s)) = unhandled s \<and>
                  raised (snd (m s)) = raised s @ (case fst (m s) of Thrown e \<Rightarrow> [e] | _ \<Rightarrow> []))"



definition dull :: "jsval io \<Rightarrow> bool" where
  "dull m = (\<forall>s v. fst (m s) = Ok v \<longrightarrow> v = Undefined)"






text \<open>The descriptor an operation passes on: \<open>{ selector, type }\<close> with the default
  applied; and the descriptors the wrappers build.\<close>

definition withDefault :: "desc \<Rightarrow> desc" where
  "withDefault d = \<lparr>selector = selector d, type = Some (typeOf d)\<rparr>"

definition byXpath :: "string \<Rightarrow> desc" where
  "byXpath x = \<lparr>selector = x, type = Some types_xpath\<rparr>"

definition bySelector :: "string \<Rightarrow> desc" where
  "bySelector x = \<lparr>selector = x, type = Some types_selector\<rparr>"




text \<open>A world whose event loop delivers the events \<open>es\<close> to a navigation session.\<close>

definition withSchedule :: "world \<Rightarrow> event list \<Rightarrow> world" where
  "withSchedule w es = w\<lparr>schedule := (\<lambda>tr. es)\<rparr>"

section \<open>Properties of the navigation session\<close>

lemma filter_update_length:
  "k < length xs \<Longrightarrow>
   length (filter P (xs[k := v])) + (if P (xs ! k) then 1 else 0) =
   length (filter P xs) + (if P v then 1 else 0)"
proof (induction xs arbitrary: k)
  case Nil
  then show ?case by simp
next
  case (Cons x xs)
  show ?case
  proof (cases k)
    case 0
    then show ?thesis by simp
  next
    case (Suc j)
    with Cons.prems have "j < length xs" by simp
    from Cons.IH [OF this] Suc show ?thesis by simp
  qed
qed

lemma inFlight_update:
  "k < length (handlers s) \<Longrightarrow>
   inFlight (s\<lparr>handlers := (handlers s)[k := h]\<rparr>) + (if holding (handlers s ! k) then 1 else 0) =
   inFlight s + (if holding h then 1 else 0)"
  unfolding inFlight_def using filter_update_length [of k "handlers s" holding h] by simp

lemma acquire_cases:
  "acquire s = (h, s2) \<Longrightarrow>
   handlers s2 = handlers s \<and>
   ((\<not> navigationResolving s \<and> holding h \<and> navigationResolving s2) \<or>
    (navigationResolving s \<and> \<not> holding h \<and> s2 = s))"
  by (auto simp: acquire_def holding_def split: if_splits provider.splits)

lemma guard_ok_navigationHandler:
  assumes "guard_ok s"
  shows "guard_ok (navigationHandler fid s)"
proof -
  obtain s1 where s1: "s1 = (case provider s of Hotmail \<Rightarrow> s\<lparr>lastNavigationTime := now s\<rparr> | Gmail \<Rightarrow> s)"
    by simp
  have g1: "guard_ok s1" using assms s1
    by (cases "provider s") (simp_all add: guard_ok_def inFlight_def)
  show ?thesis
  proof (cases "lastLoggedFrameID s1 \<noteq> Some (frameLog fid)")
    case True
    then show ?thesis using g1 s1
      by (simp add: navigationHandler_def Let_def guard_ok_def inFlight_def holding_def)
  next
    case False
    obtain h s2 where a: "acquire s1 = (h, s2)" by (cases "acquire s1")
    from acquire_cases [OF a] g1 False a s1 show ?thesis
      by (auto simp: navigationHandler_def Let_def guard_ok_def inFlight_def)
  qed
qed

lemma guard_ok_step:
  assumes "guard_ok s" and "step e s = Some s'"
  shows "guard_ok s'"
proof (cases e)
  case (Elapse d)
  with assms show ?thesis by (auto simp: guard_ok_def inFlight_def)
next
  case (FrameNavigated fid)
  with assms guard_ok_navigationHandler [OF assms(1), of fid] show ?thesis
    by (auto simp: guard_ok_def inFlight_def split: if_splits)
next
  case (ClickSettles r)
  with assms show ?thesis by (auto simp: guard_ok_def inFlight_def split: if_splits option.splits)
next
  case (DirectWaitSettles i)
  with assms show ?thesis
    by (auto simp: guard_ok_def inFlight_def enterSettlement_def checkStability_def resolveSettled_def Let_def
             split: if_splits provider.splits)
next
  case TimerFires
  with assms show ?thesis
    by (auto simp: guard_ok_def inFlight_def intervalCallback_def checkStability_def resolveSettled_def Let_def
             split: if_splits provider.splits)
next
  case (LogSettles r)
  with assms show ?thesis by (auto simp: guard_ok_def inFlight_def split: if_splits option.splits)
next
  case (HLogSettles k r)
  show ?thesis
  proof (cases r)
    case (Some x)
    with HLogSettles assms(2) obtain fl where k: "k < length (handlers s)" and hk: "handlers s ! k = HLogging fl"
      and s': "s' = s\<lparr>handlers := (handlers s)[k := HThrew x]\<rparr>"
      by (auto split: if_splits hpc.splits)
    from inFlight_update [OF k, of "HThrew x"] hk have "inFlight s' = inFlight s"
      by (simp add: s' holding_def)
    with assms(1) s' show ?thesis by (simp add: guard_ok_def)
  next
    case None
    with HLogSettles assms(2) obtain fl h s2 where k: "k < length (handlers s)" and hk: "handlers s ! k = HLogging fl"
      and a: "acquire (s\<lparr>lastLoggedFrameID := Some fl\<rparr>) = (h, s2)"
      and s': "s' = s2\<lparr>handlers := (handlers s2)[k := h]\<rparr>"
      by (auto split: if_splits hpc.splits prod.splits)
    from acquire_cases [OF a] have hs: "handlers s2 = handlers s" by simp
    with k have k2: "k < length (handlers s2)" by simp
    from inFlight_update [OF k2, of h] hk hs
    have "inFlight s' = inFlight s2 + (if holding h then 1 else 0)"
      by (simp add: s' holding_def)
    moreover have "inFlight s2 = inFlight s" using hs by (simp add: inFlight_def)
    ultimately show ?thesis using acquire_cases [OF a] assms(1) s'
      by (auto simp: guard_ok_def)
  qed
next
  case (HGraceFires k)
  with assms(2) have k: "k < length (handlers s)" and hk: "handlers s ! k = HGrace"
    and s': "s' = s\<lparr>handlers := (handlers s)[k := HWaiting], effects := effects s @ [WaitForNavigation (spage s) 3000]\<rparr>"
    by (auto split: if_splits)
  from inFlight_update [OF k, of HWaiting] hk have "inFlight s' = inFlight s"
    by (simp add: s' holding_def inFlight_def)
  with assms(1) s' show ?thesis by (simp add: guard_ok_def)
next
  case (HWaitSettles k i)
  with assms(2) have k: "k < length (handlers s)" and hk: "handlers s ! k = HWaiting"
    and s': "s' = s\<lparr>navigationResolving := False, handlers := (handlers s)[k := HReturned]\<rparr>"
    by (auto split: if_splits)
  from inFlight_update [OF k, of HReturned] hk have "inFlight s' + 1 = inFlight s"
    by (simp add: s' holding_def inFlight_def)
  with assms(1) s' show ?thesis by (auto simp: guard_ok_def split: if_splits)
qed

lemma guard_ok_run:
  "guard_ok s \<Longrightarrow> run es s = Some s' \<Longrightarrow> guard_ok s'"
  by (induction es arbitrary: s) (auto split: option.splits intro: guard_ok_step)

lemma guard_ok_begin: "guard_ok (begin_session p pg n settle t)"
  by (simp add: guard_ok_def inFlight_def begin_session_def dispatchClick_def attachListener_def create_def)


lemma run_append:
  "run (xs @ ys) s = (case run xs s of None \<Rightarrow> None | Some s' \<Rightarrow> run ys s')"
  by (induction xs arbitrary: s) (auto split: option.splits)

lemma step_effects_grow:
  "step e s = Some s' \<Longrightarrow>
   (\<exists>add. effects s' = effects s @ add) \<and> spage s' = spage s \<and> selement s' = selement s"
  by (cases e)
     (auto simp: navigationHandler_def acquire_def Let_def enterSettlement_def checkStability_def
                 resolveSettled_def intervalCallback_def
           split: if_splits option.splits provider.splits hpc.splits prod.splits)

lemma step_keeps_listener:
  "step e s = Some s' \<Longrightarrow> pc s' \<noteq> Finished \<Longrightarrow>
   pc s \<noteq> Finished \<and> listening s' = listening s \<and> (listening s \<longrightarrow> missed s' = missed s)"
  by (cases e)
     (auto simp: navigationHandler_def acquire_def Let_def enterSettlement_def checkStability_def
                 resolveSettled_def intervalCallback_def
           split: if_splits option.splits provider.splits hpc.splits prod.splits)

lemma armed_step: "armed s \<Longrightarrow> step e s = Some s' \<Longrightarrow> armed s'"
  using step_effects_grow [of e s s'] step_keeps_listener [of e s s']
  by (auto simp: armed_def)

lemma armed_run: "armed s \<Longrightarrow> run es s = Some s' \<Longrightarrow> armed s'"
  by (induction es arbitrary: s) (auto split: option.splits intro: armed_step)

lemma run_keeps_ids: "run es s = Some s' \<Longrightarrow> spage s' = spage s \<and> selement s' = selement s"
  by (induction es arbitrary: s) (auto split: option.splits dest: step_effects_grow)

lemma armed_begin: "armed (begin_session p pg n settle t)"
  by (simp add: armed_def begin_session_def dispatchClick_def attachListener_def create_def)


lemma hotmail_poll_resolves:
  assumes "provider s = Hotmail" and "pc s = Settling" and "\<not> navigationResolving s"
    and "timerDue s \<le> now s + 1000"
    and "m = nat (SETTLE_TIMEOUT s - (now s - lastNavigationTime s))"
  shows "\<exists>n s'. n \<le> m div 1000 + 1 \<and> run (polls 1000 lat n) s = Some s' \<and> pc s' = AwaitLog \<and>
           handlers s' = handlers s"
  using assms
proof (induction m arbitrary: s lat rule: less_induct)
  case (less m)
  define s1 where "s1 = s\<lparr>now := now s + int (1000 + lat 0)\<rparr>"
  have e1: "step (Elapse (1000 + lat 0)) s = Some s1" by (simp add: s1_def)
  have due: "timerDue s1 \<le> now s1" using less.prems(4) by (simp add: s1_def)
  have e2: "step TimerFires s1 = Some (checkStability s1)"
    using less.prems(1,2) due by (simp add: s1_def)
  show ?case
  proof (cases "SETTLE_TIMEOUT s1 < now s1 - lastNavigationTime s1")
    case True
    then have "pc (checkStability s1) = AwaitLog \<and> handlers (checkStability s1) = handlers s"
      using less.prems(3) by (simp add: checkStability_def resolveSettled_def Let_def s1_def)
    moreover have "run (polls 1000 lat 1) s = Some (checkStability s1)"
      using e1 e2 by (simp add: numeral_eq_Suc del: step.simps)
    ultimately show ?thesis by (intro exI [of _ 1] exI [of _ "checkStability s1"]) simp
  next
    case False
    define s2 where "s2 = checkStability s1"
    define m2 where "m2 = nat (SETTLE_TIMEOUT s2 - (now s2 - lastNavigationTime s2))"
    have s2: "provider s2 = Hotmail" "pc s2 = Settling" "\<not> navigationResolving s2"
      "timerDue s2 \<le> now s2 + 1000" "handlers s2 = handlers s"
      using False less.prems(1,3)
      by (simp_all add: s2_def checkStability_def Let_def s1_def NAVIGATION_RECHECK_DELAY_def)
    have nows: "now s2 = now s + 1000 + int (lat 0)" "lastNavigationTime s2 = lastNavigationTime s"
      "SETTLE_TIMEOUT s2 = SETTLE_TIMEOUT s"
      using False by (simp_all add: s2_def checkStability_def Let_def s1_def)
    have nonneg: "0 \<le> SETTLE_TIMEOUT s2 - (now s2 - lastNavigationTime s2)"
      using False nows by (simp add: s1_def)
    have lt: "m2 + 1000 \<le> m" using nonneg nows less.prems(5) by (simp add: m2_def)
    then have "m2 < m" by simp
    from less.IH [OF this s2(1-4) m2_def, of "\<lambda>k. lat (Suc k)"]
    obtain n s' where n: "n \<le> m2 div 1000 + 1" and r: "run (polls 1000 (\<lambda>k. lat (Suc k)) n) s2 = Some s'"
      and p: "pc s' = AwaitLog" "handlers s' = handlers s2"
      by blast
    have "run (polls 1000 lat (Suc n)) s = Some s'"
      using e1 e2 r by (simp add: s2_def del: step.simps)
    moreover have "Suc n \<le> m div 1000 + 1" using n lt by arith
    ultimately show ?thesis using p s2(5) by (intro exI [of _ "Suc n"] exI [of _ s']) simp
  qed
qed

lemma quiet_prefix:
  "run [Elapse c, ClickSettles None, Elapse (NAVIGATION_WAIT_TIMEOUT p + w), DirectWaitSettles False]
           (begin_session p pg el settle t) = Some (enterSettlement (quietAwaiting p pg el settle t c w))"
  by (simp add: begin_session_def dispatchClick_def attachListener_def create_def quietAwaiting_def)

lemma finish_after_log:
  "pc s = AwaitLog \<Longrightarrow> \<exists>s'. run [LogSettles None] s = Some s' \<and> pc s' = Finished \<and>
     \<not> listening s' \<and> handlers s' = handlers s"
  by simp


text \<open>C1. In Hotmail mode the settlement promise resolves only when \<open>checkStability\<close> runs
  (at the end of the direct wait and then at each firing of its recheck timer, which is
  re-armed a fixed 1000 ms ahead), and exactly when at that moment the resolving flag is
  false and the time since \<open>lastNavigationTime\<close> exceeds \<open>SETTLE_TIMEOUT\<close>. In Gmail mode
  it resolves exactly at a firing of the 1500 ms interval timer at which the flag is false,
  whatever the elapsed time, hence at the first such firing.\<close>

theorem settlement_resolves_at_poll_tick:
  assumes "step e s = Some s'" and "pc s = AwaitDirectWait \<or> pc s = Settling"
  shows "(provider s = Hotmail \<longrightarrow>
            (pc s' = AwaitLog) =
            ((e = TimerFires \<or> (\<exists>i. e = DirectWaitSettles i)) \<and> \<not> navigationResolving s \<and>
             SETTLE_TIMEOUT s < now s - lastNavigationTime s)) \<and>
         (provider s = Gmail \<longrightarrow>
            (pc s' = AwaitLog) = (e = TimerFires \<and> \<not> navigationResolving s)) \<and>
         (e = TimerFires \<longrightarrow> timerDue s \<le> now s) \<and>
         ((e = TimerFires \<or> (\<exists>i. e = DirectWaitSettles i)) \<and> pc s' = Settling \<longrightarrow>
            timerDue s' = now s + int (recheckEvery (provider s)))"
  using assms
  by (cases e)
     (auto simp: navigationHandler_def acquire_def Let_def enterSettlement_def checkStability_def
                 resolveSettled_def intervalCallback_def recheckEvery_def
           split: if_splits option.splits provider.splits hpc.splits prod.splits)


theorem settlement_resolves_at_poll_tick_witness:
  "step TimerFires (checkStability ((quietAwaiting Hotmail 0 0 10000 0 0 0)\<lparr>now := 10000\<rparr>)\<lparr>now := 11000\<rparr>)
     = Some (resolveSettled (checkStability ((quietAwaiting Hotmail 0 0 10000 0 0 0)\<lparr>now := 10000\<rparr>)\<lparr>now := 11000\<rparr>)) \<and>
   pc (resolveSettled (checkStability ((quietAwaiting Hotmail 0 0 10000 0 0 0)\<lparr>now := 10000\<rparr>)\<lparr>now := 11000\<rparr>)) = AwaitLog \<and>
   pc (checkStability ((quietAwaiting Hotmail 0 0 10000 0 0 0)\<lparr>now := 10000\<rparr>)) = Settling \<and>
   step TimerFires ((enterSettlement (quietAwaiting Gmail 0 0 10000 0 0 0))\<lparr>now := 6500\<rparr>)
     = Some (intervalCallback ((enterSettlement (quietAwaiting Gmail 0 0 10000 0 0 0))\<lparr>now := 6500\<rparr>)) \<and>
   pc (intervalCallback ((enterSettlement (quietAwaiting Gmail 0 0 10000 0 0 0))\<lparr>now := 6500\<rparr>)) = AwaitLog"
proof -
  define h where "h = (checkStability ((quietAwaiting Hotmail 0 0 10000 0 0 0)\<lparr>now := 10000\<rparr>))\<lparr>now := 11000\<rparr>"
  define g where "g = (enterSettlement (quietAwaiting Gmail 0 0 10000 0 0 0))\<lparr>now := 6500\<rparr>"
  have hs: "step TimerFires h = Some (resolveSettled h)" "pc h = AwaitDirectWait \<or> pc h = Settling"
    "provider h = Hotmail"
    by (simp_all add: h_def quietAwaiting_def checkStability_def resolveSettled_def
          NAVIGATION_RECHECK_DELAY_def NAVIGATION_WAIT_TIMEOUT_def)
  have gs: "step TimerFires g = Some (intervalCallback g)" "pc g = AwaitDirectWait \<or> pc g = Settling"
    "provider g = Gmail"
    by (simp_all add: g_def quietAwaiting_def enterSettlement_def RECHECK_INTERVAL_def
          NAVIGATION_WAIT_TIMEOUT_def)
  have "pc (resolveSettled h) = AwaitLog"
    using settlement_resolves_at_poll_tick [OF hs(1,2)] hs(3)
    by (simp add: h_def quietAwaiting_def checkStability_def NAVIGATION_RECHECK_DELAY_def
          NAVIGATION_WAIT_TIMEOUT_def)
  moreover have "pc (intervalCallback g) = AwaitLog"
    using settlement_resolves_at_poll_tick [OF gs(1,2)] gs(3)
    by (simp add: g_def quietAwaiting_def enterSettlement_def RECHECK_INTERVAL_def
          NAVIGATION_WAIT_TIMEOUT_def)
  moreover have "pc (checkStability ((quietAwaiting Hotmail 0 0 10000 0 0 0)\<lparr>now := 10000\<rparr>)) = Settling"
    by (simp add: quietAwaiting_def checkStability_def)
  ultimately show ?thesis using hs(1) gs(1) by (simp add: h_def g_def)
qed

lemma late_log_cases:
  assumes "step (HLogSettles k None) s = Some s'"
  shows "\<exists>fl h s2. k < length (handlers s) \<and> handlers s ! k = HLogging fl \<and>
           acquire (s\<lparr>lastLoggedFrameID := Some fl\<rparr>) = (h, s2) \<and>
           s' = s2\<lparr>handlers := (handlers s2)[k := h]\<rparr>"
  using assms by (auto split: if_splits hpc.splits prod.splits)

text \<open>C2. The claim fails as it stands. The handler tests the flag after it has
  awaited the log of a frame it had not logged yet. Frame \<open>B\<close> arrives while the wait
  started for frame \<open>A\<close> holds the flag; that wait ends while the log of \<open>B\<close> is still
  pending; when the log settles the flag is free, and the invocation for \<open>B\<close> starts a
  second \<open>page.waitForNavigation\<close>: the two events did not collapse into one wait.\<close>

theorem late_guard_test_starts_second_wait:
  "map_option navigationResolving
     (run [FrameNavigated ''A'', HLogSettles 0 None] (begin_session Hotmail 0 0 10000 0))
     = Some True \<and>
   map_option handlers
     (run [FrameNavigated ''A'', HLogSettles 0 None, FrameNavigated ''B'']
        (begin_session Hotmail 0 0 10000 0))
     = Some [HWaiting, HLogging ''Frame navigated: Frame ID = B''] \<and>
   map_option handlers
     (run [FrameNavigated ''A'', HLogSettles 0 None, FrameNavigated ''B'',
           HWaitSettles 0 True, HLogSettles 1 None]
        (begin_session Hotmail 0 0 10000 0))
     = Some [HReturned, HWaiting] \<and>
   map_option effects
     (run [FrameNavigated ''A'', HLogSettles 0 None, FrameNavigated ''B'',
           HWaitSettles 0 True, HLogSettles 1 None]
        (begin_session Hotmail 0 0 10000 0))
     = Some [PageOn 0, ElemClick 0 1,
             LogMessage ''Frame navigated: Frame ID = A'', WaitForNavigation 0 10000,
             LogMessage ''Frame navigated: Frame ID = B'', WaitForNavigation 0 10000]"
  by (simp add: begin_session_def dispatchClick_def attachListener_def create_def
        navigationHandler_def acquire_def frameLog_def Let_def)

text \<open>C2, amended. In every state a session of either provider can reach, at most one
  navigation-wait started by the handler is in flight, and the resolving flag is set exactly
  when there is one: the flag is never acquired while it is held. While the flag is set,
  a navigation event leaves the flag and the wait in flight as they are and on arrival at
  most logs the frame; a handler invocation whose log settles then returns without a wait;
  and no step of the session adds a wait. While the flag is free, a handler invocation
  whose log settles takes the flag and starts a wait, whatever the flag was when its event
  arrived. (The direct post-click wait of the function body is not guarded by the flag and
  is not one of these waits.)\<close>

theorem single_navigation_wait_in_flight:
  assumes "run es (begin_session p pg n settle t) = Some s"
  shows "inFlight s \<le> 1 \<and> navigationResolving s = (inFlight s = 1) \<and>
         (navigationResolving s \<longrightarrow>
            (\<forall>fid. inFlight (navigationHandler fid s) = inFlight s \<and>
                   navigationResolving (navigationHandler fid s) \<and>
                   (effects (navigationHandler fid s) = effects s \<or>
                    effects (navigationHandler fid s) = effects s @ [LogMessage (frameLog fid)])) \<and>
            (\<forall>k s'. step (HLogSettles k None) s = Some s' \<longrightarrow>
                   inFlight s' = inFlight s \<and> navigationResolving s' \<and>
                   effects s' = effects s \<and> handlers s' = (handlers s)[k := HReturned]) \<and>
            (\<forall>e s'. step e s = Some s' \<longrightarrow> inFlight s' \<le> inFlight s)) \<and>
         (\<not> navigationResolving s \<longrightarrow>
            (\<forall>k s'. step (HLogSettles k None) s = Some s' \<longrightarrow>
                   inFlight s' = 1 \<and> navigationResolving s' \<and>
                   holding (handlers s' ! k) \<and>
                   (effects s' = effects s @ [WaitForNavigation (spage s) 10000] \<or>
                    effects s' = effects s @ [SetTimeout 1000])))"
proof -
  have g: "guard_ok s" using guard_ok_run [OF guard_ok_begin assms] .
  then have a: "inFlight s \<le> 1 \<and> navigationResolving s = (inFlight s = 1)"
    by (simp add: guard_ok_def)
  have b: "inFlight (navigationHandler fid s) = inFlight s \<and>
           navigationResolving (navigationHandler fid s) \<and>
           (effects (navigationHandler fid s) = effects s \<or>
            effects (navigationHandler fid s) = effects s @ [LogMessage (frameLog fid)])"
    if r: "navigationResolving s" for fid
    using r
    by (cases "provider s")
       (simp_all add: navigationHandler_def acquire_def Let_def inFlight_def holding_def)
  have c: "inFlight s' = inFlight s \<and> navigationResolving s' \<and>
           effects s' = effects s \<and> handlers s' = (handlers s)[k := HReturned]"
    if r: "navigationResolving s" and st: "step (HLogSettles k None) s = Some s'" for k s'
  proof -
    from late_log_cases [OF st] obtain fl h s2 where k: "k < length (handlers s)"
      and hk: "handlers s ! k = HLogging fl"
      and q: "acquire (s\<lparr>lastLoggedFrameID := Some fl\<rparr>) = (h, s2)"
      and s': "s' = s2\<lparr>handlers := (handlers s2)[k := h]\<rparr>"
      by blast
    from q r have h: "h = HReturned" and s2: "s2 = s\<lparr>lastLoggedFrameID := Some fl\<rparr>"
      by (simp_all add: acquire_def)
    from inFlight_update [OF k, of HReturned] hk
    have "inFlight (s\<lparr>handlers := (handlers s)[k := HReturned]\<rparr>) = inFlight s"
      by (simp add: holding_def)
    then have "inFlight s' = inFlight s" by (simp add: s' s2 h inFlight_def)
    then show ?thesis using r by (simp add: s' s2 h)
  qed
  have d: "inFlight s' \<le> inFlight s"
    if r: "navigationResolving s" and st: "step e s = Some s'" for e s'
  proof -
    from guard_ok_step [OF g st] have "inFlight s' \<le> 1" by (simp add: guard_ok_def)
    moreover from a r have "inFlight s = 1" by simp
    ultimately show ?thesis by simp
  qed
  have e: "inFlight s' = 1 \<and> navigationResolving s' \<and> holding (handlers s' ! k) \<and>
           (effects s' = effects s @ [WaitForNavigation (spage s) 10000] \<or>
            effects s' = effects s @ [SetTimeout 1000])"
    if r: "\<not> navigationResolving s" and st: "step (HLogSettles k None) s = Some s'" for k s'
  proof -
    from late_log_cases [OF st] obtain fl h s2 where k: "k < length (handlers s)"
      and hk: "handlers s ! k = HLogging fl"
      and q: "acquire (s\<lparr>lastLoggedFrameID := Some fl\<rparr>) = (h, s2)"
      and s': "s' = s2\<lparr>handlers := (handlers s2)[k := h]\<rparr>"
      by blast
    from q r have f: "navigationResolving s2" "holding h" "handlers s2 = handlers s"
      "effects s2 = effects s @ [WaitForNavigation (spage s) 10000] \<or>
       effects s2 = effects s @ [SetTimeout 1000]"
      by (cases "provider s"; auto simp: acquire_def holding_def)+
    from guard_ok_step [OF g st] f(1) have "inFlight s' = 1"
      by (simp add: guard_ok_def s')
    then show ?thesis using f k by (simp add: s')
  qed
  from a b c d e show ?thesis by blast
qed

theorem single_navigation_wait_in_flight_witness:
  "\<exists>s s'. run [FrameNavigated ''A'', HLogSettles 0 None, FrameNavigated ''A'', FrameNavigated ''B'']
           (begin_session Hotmail 0 0 10000 0) = Some s \<and>
       navigationResolving s \<and> inFlight s = 1 \<and> length (handlers s) = 3 \<and>
       step (HLogSettles 2 None) s = Some s' \<and> inFlight s' = 1 \<and> effects s' = effects s"
proof -
  have "\<exists>s s'. run [FrameNavigated ''A'', HLogSettles 0 None, FrameNavigated ''A'', FrameNavigated ''B'']
           (begin_session Hotmail 0 0 10000 0) = Some s \<and> navigationResolving s \<and>
           length (handlers s) = 3 \<and> step (HLogSettles 2 None) s = Some s'"
    by (simp add: begin_session_def dispatchClick_def attachListener_def create_def
          navigationHandler_def acquire_def frameLog_def Let_def)
  then obtain s s' where r: "run [FrameNavigated ''A'', HLogSettles 0 None, FrameNavigated ''A'', FrameNavigated ''B'']
           (begin_session Hotmail 0 0 10000 0) = Some s" and f: "navigationResolving s"
    "length (handlers s) = 3" and st: "step (HLogSettles 2 None) s = Some s'"
    by blast
  note t = single_navigation_wait_in_flight [OF r]
  from t f have 1: "inFlight s = 1" by simp
  from t f(1) st have "inFlight s' = inFlight s \<and> effects s' = effects s" by blast
  with 1 r f st show ?thesis by (intro exI [of _ s] exI [of _ s']) simp
qed

text \<open>C3. Both functions attach the \<open>framenavigated\<close> listener and only then call
  \<open>element.click()\<close>: the click is dispatched from a state in which the listener is
  attached and \<open>page.on\<close> is the only call made; in every state a session can reach, the
  first two calls it made are \<open>page.on\<close> and the click, in this order; and until the
  function finishes (and detaches the listener) the listener is attached and no navigation
  event has found it missing.\<close>

theorem listener_attached_before_click:
  assumes "run es (begin_session p pg n settle t) = Some s"
  shows "listening (attachListener (create p pg n settle t)) \<and>
         effects (attachListener (create p pg n settle t)) = [PageOn pg] \<and>
         begin_session p pg n settle t = dispatchClick (attachListener (create p pg n settle t)) \<and>
         (\<exists>post. effects s = PageOn pg # ElemClick n 1 # post) \<and>
         (pc s \<noteq> Finished \<longrightarrow> listening s \<and> missed s = 0)"
proof -
  have "armed s" using armed_run [OF armed_begin assms] .
  moreover have "spage s = pg \<and> selement s = n"
    using run_keeps_ids [OF assms]
    by (simp add: begin_session_def dispatchClick_def attachListener_def create_def)
  ultimately have "(\<exists>post. effects s = PageOn pg # ElemClick n 1 # post) \<and>
         (pc s \<noteq> Finished \<longrightarrow> listening s \<and> missed s = 0)"
    by (simp add: armed_def)
  moreover have "listening (attachListener (create p pg n settle t)) \<and>
         effects (attachListener (create p pg n settle t)) = [PageOn pg]"
    by (simp add: attachListener_def create_def)
  ultimately show ?thesis by (simp add: begin_session_def)
qed


theorem listener_attached_before_click_witness:
  "\<exists>s. run [FrameNavigated ''A'', ClickSettles None, FrameNavigated ''B'']
           (begin_session Gmail 7 3 10000 0) = Some s \<and>
       take 2 (effects s) = [PageOn 7, ElemClick 3 1] \<and> listening s \<and> missed s = 0 \<and>
       \<not> listening (create Gmail 7 3 10000 0) \<and> effects (create Gmail 7 3 10000 0) = []"
proof -
  have "\<exists>s. run [FrameNavigated ''A'', ClickSettles None, FrameNavigated ''B'']
           (begin_session Gmail 7 3 10000 0) = Some s \<and> pc s = AwaitDirectWait"
    by (simp add: begin_session_def dispatchClick_def attachListener_def create_def
          navigationHandler_def acquire_def frameLog_def Let_def)
  then obtain s where r: "run [FrameNavigated ''A'', ClickSettles None, FrameNavigated ''B'']
           (begin_session Gmail 7 3 10000 0) = Some s" and f: "pc s = AwaitDirectWait"
    by blast
  from listener_attached_before_click [OF r] f
  have "take 2 (effects s) = [PageOn 7, ElemClick 3 1] \<and> listening s \<and> missed s = 0"
    by auto
  with r show ?thesis by (auto simp: create_def)
qed

text \<open>C4. A click after which no navigation event fires always completes. Whatever time
  the click takes, however late the timeout of the direct post-click wait is delivered (it
  is swallowed) and however late each recheck timer fires, the session reaches its end,
  with the listener detached, after finitely many recheck timers: at most
  \<open>SETTLE_TIMEOUT div 1000 + 1\<close> in Hotmail mode, and one in Gmail mode.\<close>

theorem quiet_click_terminates:
  "\<exists>n s. n \<le> (case p of Hotmail \<Rightarrow> nat settle div 1000 + 1 | Gmail \<Rightarrow> 1) \<and>
         run (quietSchedule p c w lat n) (begin_session p pg el settle t) = Some s \<and>
         pc s = Finished \<and> \<not> listening s \<and> handlers s = []"
proof -
  define sB where "sB = quietAwaiting p pg el settle t c w"
  have pre: "run [Elapse c, ClickSettles None, Elapse (NAVIGATION_WAIT_TIMEOUT p + w), DirectWaitSettles False]
           (begin_session p pg el settle t) = Some (enterSettlement sB)"
    unfolding sB_def by (rule quiet_prefix)
  have sB: "provider sB = p" "pc sB = AwaitDirectWait" "\<not> navigationResolving sB"
      "now sB = t + int c + int (NAVIGATION_WAIT_TIMEOUT p) + int w" "lastNavigationTime sB = t"
      "SETTLE_TIMEOUT sB = settle" "handlers sB = []"
    by (simp_all add: sB_def quietAwaiting_def)
  define sC where "sC = enterSettlement sB"
  have "\<exists>n sD. n \<le> (case p of Hotmail \<Rightarrow> nat settle div 1000 + 1 | Gmail \<Rightarrow> 1) \<and>
          run (polls (recheckEvery p) lat n) sC = Some sD \<and> pc sD = AwaitLog \<and> handlers sD = []"
  proof (cases p)
    case Hotmail
    show ?thesis
    proof (cases "settle < now sB - lastNavigationTime sB")
      case True
      then have "pc sC = AwaitLog \<and> handlers sC = []"
        using sB Hotmail by (simp add: sC_def enterSettlement_def checkStability_def resolveSettled_def Let_def)
      then show ?thesis by (intro exI [of _ 0] exI [of _ sC]) simp
    next
      case False
      define m where "m = nat (SETTLE_TIMEOUT sC - (now sC - lastNavigationTime sC))"
      have c: "provider sC = Hotmail" "pc sC = Settling" "\<not> navigationResolving sC"
        "timerDue sC \<le> now sC + 1000" "handlers sC = []"
        using False sB Hotmail
        by (simp_all add: sC_def enterSettlement_def checkStability_def Let_def NAVIGATION_RECHECK_DELAY_def)
      have "SETTLE_TIMEOUT sC - (now sC - lastNavigationTime sC) \<le> settle"
        using False sB Hotmail
        by (simp add: sC_def enterSettlement_def checkStability_def Let_def)
      then have mle: "m \<le> nat settle" by (simp add: m_def)
      from hotmail_poll_resolves [OF c(1-4) m_def, of lat]
      obtain n sD where n: "n \<le> m div 1000 + 1" and r: "run (polls 1000 lat n) sC = Some sD"
        and d: "pc sD = AwaitLog" "handlers sD = handlers sC" by blast
      have "n \<le> nat settle div 1000 + 1" using n mle by (meson add_le_mono1 div_le_mono le_trans)
      then show ?thesis using r d c(5) Hotmail
        by (intro exI [of _ n] exI [of _ sD]) (simp add: recheckEvery_def NAVIGATION_RECHECK_DELAY_def)
    qed
  next
    case Gmail
    have "\<exists>sD. run (polls 1500 lat (Suc 0)) sC = Some sD \<and> pc sD = AwaitLog \<and> handlers sD = []"
      using sB Gmail
      by (simp add: sC_def enterSettlement_def intervalCallback_def resolveSettled_def RECHECK_INTERVAL_def)
    then obtain sD where "run (polls 1500 lat (Suc 0)) sC = Some sD" "pc sD = AwaitLog" "handlers sD = []"
      by blast
    then show ?thesis using Gmail
      by (intro exI [of _ "Suc 0"] exI [of _ sD]) (simp add: recheckEvery_def RECHECK_INTERVAL_def)
  qed
  then obtain n sD where n: "n \<le> (case p of Hotmail \<Rightarrow> nat settle div 1000 + 1 | Gmail \<Rightarrow> 1)"
    and r: "run (polls (recheckEvery p) lat n) sC = Some sD" and d: "pc sD = AwaitLog" "handlers sD = []"
    by blast
  from finish_after_log [OF d(1)] obtain s where
    f: "run [LogSettles None] sD = Some s" "pc s = Finished" "\<not> listening s" "handlers s = handlers sD"
    by blast
  have "run (quietSchedule p c w lat n) (begin_session p pg el settle t) =
        run (polls (recheckEvery p) lat n @ [LogSettles None]) sC"
    by (simp only: quietSchedule_def run_append pre option.case sC_def)
  also have "\<dots> = run [LogSettles None] sD"
    by (simp only: run_append r option.case)
  finally have "run (quietSchedule p c w lat n) (begin_session p pg el settle t) = Some s"
    using f(1) by simp
  then show ?thesis using n f(2-4) d(2)
    by (intro exI [of _ n] exI [of _ s]) simp
qed

section \<open>Properties of the utilities\<close>

lemmas io_defs = bnd_def ret_def throw_def tryCatch_def perform_def outcome_def Math_random_def
  Date_now_def handleError_def


lemma typeOf_Some [simp]: "typeOf \<lparr>selector = x, type = Some t\<rparr> = t"
  by (simp add: typeOf_def)

lemma randomNumber_range:
  assumes "0 \<le> r" "r < 1" "lo \<le> hi"
  shows "lo \<le> randomNumber r lo hi \<and> randomNumber r lo hi \<le> hi \<and> randomNumber r hi lo = randomNumber r lo hi"
proof -
  define n where "n = hi - lo + 1"
  have n: "0 < n" using assms(3) by (simp add: n_def)
  have "0 \<le> r * real_of_int n" using assms(1) n by simp
  then have f0: "0 \<le> \<lfloor>r * real_of_int n\<rfloor>" by simp
  have "r * real_of_int n < real_of_int n" using assms(2) n by simp
  then have f1: "\<lfloor>r * real_of_int n\<rfloor> < n" by (simp add: floor_less_iff)
  have e: "randomNumber r lo hi = \<lfloor>r * real_of_int n\<rfloor> + lo"
    using assms(3) by (simp add: randomNumber_def n_def)
  have e2: "randomNumber r hi lo = \<lfloor>r * real_of_int n\<rfloor> + lo"
    using assms(3) by (cases "lo = hi") (auto simp: randomNumber_def n_def)
  show ?thesis using f0 f1 e e2 by (simp add: n_def)
qed

lemma ordered_swap: "ordered a b = ordered b a"
  by (simp add: ordered_def)

lemma ordered_min_max: "ordered a b = (min a b, max a b)"
  by (simp add: ordered_def min_def max_def)

lemma scrollEndTime_eq:
  "scrollEndTime t r a b = real_of_int t + r * (max a b - min a b) + min a b"
  by (simp add: scrollEndTime_def ordered_min_max [of b a] min.commute max.commute)

lemma scrollEndTime_swap: "scrollEndTime t r a b = scrollEndTime t r b a"
  by (simp add: scrollEndTime_eq min.commute max.commute)

























subsection \<open>typeText when every call succeeds\<close>

lemma calm_simps:
  "respond (calm missing r t) tr (EvaluateIsActive pg n) = Ok (Bool True)"
  "respond (calm missing r t) tr (ElemType n c k) = Ok Undefined"
  "respond (calm missing r t) tr (ElemPress n key) = Ok Undefined"
  "respond (calm missing r t) tr (ElemFocus n) = Ok Undefined"
  "randoms (calm missing r t) j = r"
  "css (calm missing r t) tr pg sel = Ok (if sel \<in> set missing then [] else [1])"
  "currentPage (calm missing r t) = 0"
  by (simp_all add: calm_def)

lemma typeChars_calm:
  "typeChars (calm missing r t) pg (ElementHandle n) cs s =
     (Ok Undefined, s\<lparr>trace := trace s @ keystrokes pg n (randomNumber r 1 2) cs,
                       draws := draws s + length cs\<rparr>)"
proof (induction cs arbitrary: s)
  case Nil
  then show ?case by (simp add: ret_def keystrokes_def)
next
  case (Cons c cs)
  show ?case
    by (simp add: Cons.IH ensureFocus_def evaluateIsActive_def elementType_def io_defs calm_simps
          keystrokes_def)
qed

lemma typeLines_calm:
  "typeLines (calm missing r t) pg (ElementHandle n) ls rest s =
     (Ok Undefined, s\<lparr>trace := trace s @ typed pg n (randomNumber r 1 2) ls rest,
                       draws := draws s + length (concat rest)\<rparr>)"
proof (induction rest arbitrary: s)
  case Nil
  then show ?case by (simp add: ret_def typed_def)
next
  case (Cons line rest)
  show ?case
    by (simp add: Cons.IH typeChars_calm bnd_def ret_def elementPress_def perform_def outcome_def
          calm_simps typed_def)
qed

lemma typeText_calm:
  assumes "selector d \<notin> set missing" and "typeOf d = ''selector''"
  shows "typeText (calm missing r t) d text None fresh =
     (Ok Undefined,
      \<lparr>trace = Query 0 (selector d) # ElemFocus 1 #
                typed 0 1 (randomNumber r 1 2) (split_lines text) (split_lines text),
       handled = [], draws = length (concat (split_lines text)), reads = 0, raised = [], unhandled = []\<rparr>)"
  using assms
  by (simp add: typeText_def getElement_def resolveElement_def frameOr_def getPage_def
        page_query_def tryCatch_def bnd_def ret_def outcome_def elementFocus_def perform_def
        typeLines_calm toText_def fresh_def calm_simps)


lemma keystrokes_no_enter: "filter (\<lambda>p. p = ElemPress n ''Enter'') (keystrokes pg n k line) = []"
  by (induction line) (simp_all add: keystrokes_def)

lemma typed_enter_count:
  "length (filter (\<lambda>p. p = ElemPress n ''Enter'') (typed pg n k ls rest)) =
   length (filter (\<lambda>line. line \<noteq> last ls) rest)"
  by (induction rest) (simp_all add: typed_def keystrokes_no_enter [unfolded keystrokes_def] keystrokes_def)

lemma split_lines_breaks:
  "length (split_lines str) = Suc (length (filter (\<lambda>c. c = CHR 0x0A) str))"
  by (induction str) (auto split: list.splits)

text \<open>C5. \<open>typeText\<close> presses Enter after a line only when the line differs, as a string,
  from the last line of the text (\<open>typeText_calm\<close>), so the Enter presses number the lines
  that differ from the last one (\<open>typed_enter_count\<close>), not the line breaks
  (\<open>split_lines_breaks\<close>): a line that repeats the last one gets no Enter. The text
  \<open>"a\na"\<close> has one line break and two lines; typing it into a found element makes the
  calls below, none of which is a press of Enter. A text whose lines differ, \<open>"a\nb"\<close>,
  gets its Enter between the two characters.\<close>

theorem typeText_repeated_line_no_enter:
  "split_lines (''a'' @ [CHR 0x0A] @ ''a'') = [''a'', ''a''] \<and>
   typeText (calm [] (1/2) 0) \<lparr>selector = ''#box'', type = None\<rparr> (''a'' @ [CHR 0x0A] @ ''a'') None fresh
   = (Ok Undefined,
      \<lparr>trace = [Query 0 ''#box'', ElemFocus 1, EvaluateIsActive 0 1, ElemType 1 CHR ''a'' 2,
                EvaluateIsActive 0 1, ElemType 1 CHR ''a'' 2],
       handled = [], draws = 2, reads = 0, raised = [], unhandled = []\<rparr>) \<and>
   trace (snd (typeText (calm [] (1/2) 0) \<lparr>selector = ''#box'', type = None\<rparr>
                 (''a'' @ [CHR 0x0A] @ ''b'') None fresh))
   = [Query 0 ''#box'', ElemFocus 1, EvaluateIsActive 0 1, ElemType 1 CHR ''a'' 2,
      ElemPress 1 ''Enter'', EvaluateIsActive 0 1, ElemType 1 CHR ''b'' 2]"
  by (simp add: typeText_def getElement_def resolveElement_def typeOf_def frameOr_def getPage_def
        page_query_def io_defs calm_def fresh_def toText_def elementFocus_def elementType_def
        elementPress_def ensureFocus_def evaluateIsActive_def randomNumber_def)

text \<open>The results of the two bulk kinds on a page where the selector matches nothing are
  the handle of an empty array and an empty array. Both are truthy: the \<open>element || null\<close>
  of \<open>getElement\<close> leaves them as they are. The kind \<open>selector\<close> returns \<open>null\<close> on the
  same page.\<close>

lemma getElement_bulk_kinds_no_match:
  "getElement (calm [''//nothing''] 0 0) \<lparr>selector = ''//nothing'', type = Some ''allXpath''\<rparr> None fresh
   = (Ok (JSHandle (Array [])),
      \<lparr>trace = [EvaluateHandleXPathAll 0 ''//nothing'',
                HandleEvaluate (JSHandle (Array [])) ''nodes.map(node => node)'' []],
       handled = [], draws = 0, reads = 0, raised = [], unhandled = []\<rparr>) \<and>
   truthy (JSHandle (Array [])) \<and>
   getElement (calm [''.nothing''] 0 0) \<lparr>selector = ''.nothing'', type = Some ''allSelector''\<rparr> None fresh
   = (Ok (Array []),
      \<lparr>trace = [QueryAll 0 ''.nothing''], handled = [], draws = 0, reads = 0, raised = [], unhandled = []\<rparr>) \<and>
   truthy (Array []) \<and>
   fst (getElement (calm [''.nothing''] 0 0) \<lparr>selector = ''.nothing'', type = Some ''selector''\<rparr> None fresh)
   = Ok Null"
  by (simp add: getElement_def resolveElement_def typeOf_def frameOr_def getPage_def
        evaluateHandleXPathAll_def page_queryAll_def page_query_def handleEvaluate_def io_defs
        calm_def fresh_def)

lemma getElement_never_rejects: "fst (getElement w d frame s) \<noteq> Thrown e"
  by (simp add: getElement_def tryCatch_def handleError_def split: prod.splits res.splits)

lemma resolvesTo_query:
  assumes "css w (trace s) pg q = Ok []"
  shows "resolvesTo (tryCatch (bnd (page_query w pg q)
            (\<lambda>element. ret (if truthy element then element else Null))) h) s Null"
  using assms by (simp add: resolvesTo_def page_query_def io_defs)

text \<open>C6. When the page's lookup for the selector matches no node, \<open>getElement\<close> returns
  a not-found result, with nothing thrown and the shared handler not called: \<open>null\<close> for
  the kinds \<open>id\<close>, \<open>selector\<close> (also as the default kind), \<open>class\<close> and \<open>xpath\<close>, the
  empty array for \<open>allSelector\<close>, and for \<open>allXpath\<close> the handle of the empty array, once
  the \<open>evaluate\<close> call on that handle has returned; if that call fails or never settles,
  \<open>getElement\<close> returns \<open>undefined\<close> or does not return. For no descriptor at all, of a
  supported kind or not, is the promise of \<open>getElement\<close> rejected.\<close>

theorem getElement_no_match_not_found:
  "(css w (trace s) (frameOr w frame) (''[id='' @ [CHR 0x22] @ sel @ [CHR 0x22] @ '']'') = Ok [] \<longrightarrow>
      resolvesTo (getElement w \<lparr>selector = sel, type = Some ''id''\<rparr> frame) s Null) \<and>
   (css w (trace s) (frameOr w frame) sel = Ok [] \<longrightarrow>
      resolvesTo (getElement w \<lparr>selector = sel, type = Some ''selector''\<rparr> frame) s Null \<and>
      resolvesTo (getElement w \<lparr>selector = sel, type = None\<rparr> frame) s Null \<and>
      resolvesTo (getElement w \<lparr>selector = sel, type = Some ''allSelector''\<rparr> frame) s (Array [])) \<and>
   (css w (trace s) (frameOr w frame) (''.'' @ sel) = Ok [] \<longrightarrow>
      resolvesTo (getElement w \<lparr>selector = sel, type = Some ''class''\<rparr> frame) s Null) \<and>
   (xpath w (trace s) (frameOr w frame) sel = Ok [] \<longrightarrow>
      resolvesTo (getElement w \<lparr>selector = sel, type = Some ''xpath''\<rparr> frame) s Null \<and>
      ((\<exists>v. respond w (trace s @ [EvaluateHandleXPathAll (frameOr w frame) sel])
              (HandleEvaluate (JSHandle (Array [])) ''nodes.map(node => node)'' []) = Ok v) \<longrightarrow>
       resolvesTo (getElement w \<lparr>selector = sel, type = Some ''allXpath''\<rparr> frame) s
         (JSHandle (Array []))) \<and>
      fst (getElement w \<lparr>selector = sel, type = Some ''allXpath''\<rparr> frame s)
        \<in> {Ok (JSHandle (Array [])), Ok Undefined, Hang}) \<and>
   (\<forall>d e. fst (getElement w d frame s) \<noteq> Thrown e)"
proof -
  let ?pg = "frameOr w frame"
  have a: "resolvesTo (getElement w \<lparr>selector = sel, type = Some ''id''\<rparr> frame) s Null"
    if "css w (trace s) ?pg (''[id='' @ [CHR 0x22] @ sel @ [CHR 0x22] @ '']'') = Ok []"
    using resolvesTo_query [OF that] by (simp add: getElement_def resolveElement_def)
  have b: "resolvesTo (getElement w \<lparr>selector = sel, type = Some ''selector''\<rparr> frame) s Null \<and>
      resolvesTo (getElement w \<lparr>selector = sel, type = None\<rparr> frame) s Null \<and>
      resolvesTo (getElement w \<lparr>selector = sel, type = Some ''allSelector''\<rparr> frame) s (Array [])"
    if h: "css w (trace s) ?pg sel = Ok []"
  proof -
    have "resolvesTo (getElement w \<lparr>selector = sel, type = Some ''allSelector''\<rparr> frame) s (Array [])"
      using h by (simp add: resolvesTo_def getElement_def resolveElement_def page_queryAll_def io_defs)
    then show ?thesis using resolvesTo_query [OF h]
      by (simp add: getElement_def resolveElement_def typeOf_def)
  qed
  have c: "resolvesTo (getElement w \<lparr>selector = sel, type = Some ''class''\<rparr> frame) s Null"
    if "css w (trace s) ?pg (''.'' @ sel) = Ok []"
    using resolvesTo_query [OF that] by (simp add: getElement_def resolveElement_def)
  have d1: "resolvesTo (getElement w \<lparr>selector = sel, type = Some ''xpath''\<rparr> frame) s Null"
    if h: "xpath w (trace s) ?pg sel = Ok []"
    using h by (simp add: resolvesTo_def getElement_def resolveElement_def
                  evaluateHandleXPathFirst_def asElement_def io_defs)
  have d2: "resolvesTo (getElement w \<lparr>selector = sel, type = Some ''allXpath''\<rparr> frame) s
         (JSHandle (Array []))"
    if h: "xpath w (trace s) ?pg sel = Ok []"
      and r: "\<exists>v. respond w (trace s @ [EvaluateHandleXPathAll ?pg sel])
              (HandleEvaluate (JSHandle (Array [])) ''nodes.map(node => node)'' []) = Ok v"
    using h r by (auto simp: resolvesTo_def getElement_def resolveElement_def
                  evaluateHandleXPathAll_def handleEvaluate_def io_defs)
  have d3: "fst (getElement w \<lparr>selector = sel, type = Some ''allXpath''\<rparr> frame s)
        \<in> {Ok (JSHandle (Array [])), Ok Undefined, Hang}"
    if h: "xpath w (trace s) ?pg sel = Ok []"
    using h
    by (cases "respond w (trace s @ [EvaluateHandleXPathAll ?pg sel])
              (HandleEvaluate (JSHandle (Array [])) ''nodes.map(node => node)'' [])")
       (simp_all add: getElement_def resolveElement_def
                  evaluateHandleXPathAll_def handleEvaluate_def io_defs)
  have e: "\<forall>d e. fst (getElement w d frame s) \<noteq> Thrown e"
    by (simp add: getElement_never_rejects)
  from a b c d1 d2 d3 e show ?thesis by blast
qed

theorem getElement_no_match_not_found_witness:
  "fst (getElement (calm [''//nothing''] 0 0) \<lparr>selector = ''//nothing'', type = Some ''xpath''\<rparr> None fresh)
     = Ok Null \<and>
   getElement (calm [''//nothing''] 0 0) \<lparr>selector = ''//nothing'', type = Some ''allXpath''\<rparr> None fresh
     = (Ok (JSHandle (Array [])),
        \<lparr>trace = [EvaluateHandleXPathAll 0 ''//nothing'',
                  HandleEvaluate (JSHandle (Array [])) ''nodes.map(node => node)'' []],
         handled = [], draws = 0, reads = 0, raised = [], unhandled = []\<rparr>) \<and>
   fst (getElement (calm [''//nothing''] 0 0) \<lparr>selector = ''//nothing'', type = Some ''allSelector''\<rparr> None fresh)
     = Ok (Array [])"
proof -
  define W where "W = calm [''//nothing''] 0 0"
  note t = getElement_no_match_not_found [of W fresh None "''//nothing''"]
  have x: "xpath W (trace fresh) (frameOr W None) ''//nothing'' = Ok []"
    and c: "css W (trace fresh) (frameOr W None) ''//nothing'' = Ok []"
    and r: "\<exists>v. respond W (trace fresh @ [EvaluateHandleXPathAll (frameOr W None) ''//nothing''])
              (HandleEvaluate (JSHandle (Array [])) ''nodes.map(node => node)'' []) = Ok v"
    by (simp_all add: W_def calm_def)
  from t x have 1: "resolvesTo (getElement W \<lparr>selector = ''//nothing'', type = Some ''xpath''\<rparr> None) fresh Null"
    by blast
  from t x r have 2: "resolvesTo (getElement W \<lparr>selector = ''//nothing'', type = Some ''allXpath''\<rparr> None) fresh
         (JSHandle (Array []))"
    by blast
  from t c have 3: "resolvesTo (getElement W \<lparr>selector = ''//nothing'', type = Some ''allSelector''\<rparr> None) fresh (Array [])"
    by blast
  have tr: "trace (snd (getElement W \<lparr>selector = ''//nothing'', type = Some ''allXpath''\<rparr> None fresh))
            = [EvaluateHandleXPathAll 0 ''//nothing'',
                  HandleEvaluate (JSHandle (Array [])) ''nodes.map(node => node)'' []]"
    "draws (snd (getElement W \<lparr>selector = ''//nothing'', type = Some ''allXpath''\<rparr> None fresh)) = 0"
    "reads (snd (getElement W \<lparr>selector = ''//nothing'', type = Some ''allXpath''\<rparr> None fresh)) = 0"
    "unhandled (snd (getElement W \<lparr>selector = ''//nothing'', type = Some ''allXpath''\<rparr> None fresh)) = []"
    by (simp_all add: W_def getElement_def resolveElement_def frameOr_def getPage_def
        evaluateHandleXPathAll_def handleEvaluate_def io_defs calm_def fresh_def)
  obtain res st where g: "getElement W \<lparr>selector = ''//nothing'', type = Some ''allXpath''\<rparr> None fresh = (res, st)"
    by (cases "getElement W \<lparr>selector = ''//nothing'', type = Some ''allXpath''\<rparr> None fresh")
  from 2 tr g have "res = Ok (JSHandle (Array []))" "st = \<lparr>trace = [EvaluateHandleXPathAll 0 ''//nothing'',
                  HandleEvaluate (JSHandle (Array [])) ''nodes.map(node => node)'' []],
         handled = [], draws = 0, reads = 0, raised = [], unhandled = []\<rparr>"
    by (simp_all add: resolvesTo_def fresh_def)
  with 1 3 g show ?thesis by (simp add: resolvesTo_def W_def)
qed

text \<open>C8. When the element is found, \<open>clearInput\<close> clicks it with a click count
  \<open>randomNumber(3, 6)\<close>, which lies in [3, 6] and is the same when the bounds are passed in
  the other order; it then waits and presses Backspace once. The calls it makes after the
  lookup are a non-empty prefix of these three, and all three when none of them fails.\<close>

theorem clearInput_click_wait_delete:
  assumes "getElement w \<lparr>selector = selector d, type = Some (typeOf d)\<rparr> frame s = (Ok (ElementHandle n), s1)"
    and "0 \<le> randoms w (draws s1)" and "randoms w (draws s1) < 1"
    and "k = randomNumber (randoms w (draws s1)) 3 6"
  shows "3 \<le> k \<and> k \<le> 6 \<and> randomNumber (randoms w (draws s1)) 6 3 = k \<and>
         (\<exists>made. trace (snd (clearInput w d frame s)) = trace s1 @ made \<and> made \<noteq> [] \<and>
                 prefix made [ElemClick n k, RandomWait, ElemPress n ''Backspace'']) \<and>
         ((\<exists>x. respond w (trace s1) (ElemClick n k) = Ok x) \<and>
          (\<exists>x. respond w (trace s1 @ [ElemClick n k]) RandomWait = Ok x) \<and>
          (\<exists>x. respond w (trace s1 @ [ElemClick n k, RandomWait]) (ElemPress n ''Backspace'') = Ok x) \<longrightarrow>
          fst (clearInput w d frame s) = Ok Undefined \<and>
          trace (snd (clearInput w d frame s)) =
            trace s1 @ [ElemClick n k, RandomWait, ElemPress n ''Backspace''])"
proof -
  have k: "3 \<le> k \<and> k \<le> 6 \<and> randomNumber (randoms w (draws s1)) 6 3 = k"
    using randomNumber_range [OF assms(2,3), of 3 6] assms(4) by simp
  have c: "clearInput w d frame s =
     tryCatch (bnd (elementClick w (ElementHandle n) k)
                       (\<lambda>_. bnd (perform w RandomWait)
                          (\<lambda>_. bnd (elementPress w (ElementHandle n) ''Backspace'')
                                  (\<lambda>_. ret Undefined))))
       (\<lambda>error. handleError w error Null
                   (Object [(''selector'', Str (selector d)), (''type'', Str (typeOf d))]))
       (s1\<lparr>draws := Suc (draws s1)\<rparr>)"
    using assms(1,4) by (simp add: clearInput_def tryCatch_def bnd_def Math_random_def)
  have made: "\<exists>made. trace (snd (clearInput w d frame s)) = trace s1 @ made \<and> made \<noteq> [] \<and>
                 prefix made [ElemClick n k, RandomWait, ElemPress n ''Backspace'']"
    unfolding c
    by (auto simp: io_defs elementClick_def elementPress_def prefix_Cons split: res.splits)
  have full: "fst (clearInput w d frame s) = Ok Undefined \<and>
          trace (snd (clearInput w d frame s)) =
            trace s1 @ [ElemClick n k, RandomWait, ElemPress n ''Backspace'']"
    if "(\<exists>x. respond w (trace s1) (ElemClick n k) = Ok x) \<and>
          (\<exists>x. respond w (trace s1 @ [ElemClick n k]) RandomWait = Ok x) \<and>
          (\<exists>x. respond w (trace s1 @ [ElemClick n k, RandomWait]) (ElemPress n ''Backspace'') = Ok x)"
    using that unfolding c
    by (auto simp: io_defs elementClick_def elementPress_def)
  from k made full show ?thesis by blast
qed


theorem clearInput_click_wait_delete_witness:
  "clearInput (calm [] (1/2) 0) \<lparr>selector = ''#q'', type = None\<rparr> None fresh =
     (Ok Undefined, \<lparr>trace = [Query 0 ''#q'', ElemClick 1 5, RandomWait, ElemPress 1 ''Backspace''],
        handled = [], draws = 1, reads = 0, raised = [], unhandled = []\<rparr>) \<and>
   randomNumber (1/2) 6 3 = 5"
proof -
  define s1 where "s1 = fresh\<lparr>trace := [Query 0 ''#q'']\<rparr>"
  have g: "getElement (calm [] (1/2) 0) \<lparr>selector = selector \<lparr>selector = ''#q'', type = None\<rparr>,
             type = Some (typeOf \<lparr>selector = ''#q'', type = None\<rparr>)\<rparr> None fresh = (Ok (ElementHandle 1), s1)"
    by (simp add: getElement_def resolveElement_def typeOf_def frameOr_def getPage_def
        page_query_def io_defs calm_def fresh_def s1_def)
  have r: "0 \<le> randoms (calm [] (1/2) 0) (draws s1)" "randoms (calm [] (1/2) 0) (draws s1) < 1"
    by (simp_all add: calm_def)
  have k: "(5::int) = randomNumber (randoms (calm [] (1/2) 0) (draws s1)) 3 6"
    by (simp add: calm_def randomNumber_def)
  have "randomNumber (randoms (calm [] (1/2) 0) (draws s1)) 6 3 = 5"
    using clearInput_click_wait_delete [OF g r k] by simp
  then have "randomNumber (1/2) 6 3 = 5" by (simp add: calm_def)
  moreover have "clearInput (calm [] (1/2) 0) \<lparr>selector = ''#q'', type = None\<rparr> None fresh =
     (Ok Undefined, \<lparr>trace = [Query 0 ''#q'', ElemClick 1 5, RandomWait, ElemPress 1 ''Backspace''],
        handled = [], draws = 1, reads = 0, raised = [], unhandled = []\<rparr>)"
    by (simp add: clearInput_def getElement_def resolveElement_def typeOf_def frameOr_def getPage_def
        page_query_def io_defs calm_def fresh_def elementClick_def elementPress_def randomNumber_def)
  ultimately show ?thesis by simp
qed







text \<open>C10. \<open>scrollToElement\<close> passes \<open>offset, maxScrollingSpeed, minScrollingSpeed\<close> to a
  script whose parameters are \<open>maxScrollingSpeed, minScrollingSpeed, offset\<close>: the script's
  \<open>offset\<close> is the caller's \<open>minScrollingSpeed\<close>. Called with speeds 900 and 500 and offset
  200 for an element whose bounding rectangle has top 1000, the initial jump is to
  1000 - 500 = 500, not to 1000 - 200 = 800.\<close>

theorem scrollToElement_jump_uses_speed_as_offset:
  "trace (snd (scrollToElement (calm [] 0 0) \<lparr>selector = ''#target'', type = Some ''selector''\<rparr>
                 5000 3000 900 500 200 fresh))
   = [Query 0 ''#target'', EvaluateScrollToElement 0 ''#target'' (Some ''selector'') 200 900 500 3000] \<and>
   inPage \<lparr>rectTop = (\<lambda>ty sel. Some 1000), readings = [3000], samples = []\<rparr>
     (EvaluateScrollToElement 0 ''#target'' (Some ''selector'') 200 900 500 3000)
   = Some [ScrollTo 0 500, Delay 1500, ScrollIntoView]"
  by (simp add: scrollToElement_def checkElement_def typeOf_def getPage_def types_selector_def
        page_query_def io_defs calm_def fresh_def ordered_def scrollEndTime_def
        inPage_def scrollToElementScript_def)

section \<open>Errors stay inside the operations\<close>

subsection \<open>Computations that call no handler\<close>


lemma plain_throw: "plain (throw e)"
  by (simp add: plain_def throw_def)













subsection \<open>Computations that return nothing but \<open>undefined\<close>\<close>

lemma dull_ret: "dull (ret Undefined)"
  by (simp add: dull_def ret_def)


lemma dull_bnd: "(\<And>a. dull (f a)) \<Longrightarrow> dull (bnd m f)"
  by (auto simp: dull_def bnd_def split: prod.splits res.splits)

lemma dull_if: "dull a \<Longrightarrow> dull b \<Longrightarrow> dull (if c then a else b)"
  by simp



lemma dull_navigate: "dull (navigate w p pg el settle t)"
  by (cases el)
     (auto simp: dull_def navigate_def outcome_def split: option.splits mainpc.splits)

lemma plain_destructured: "(\<And>d. plain (body d)) \<Longrightarrow> plain (destructured arg body)"
  by (cases arg) (simp_all add: destructured_def plain_throw)

lemma dull_nav:
  "dull (handleHotmailNavigation w pg el settle)" "dull (handleGmailNavigation w pg el)"
  unfolding handleHotmailNavigation_def handleGmailNavigation_def
  by (intro dull_bnd dull_navigate)+

lemma dull_typeLines: "dull (typeLines w pg el ls rest)"
  by (induction rest) (auto intro!: dull_bnd dull_ret)


subsection \<open>Forwarding composes\<close>


















subsection \<open>Every operation forwards what is thrown inside it\<close>




lemma descriptors [simp]:
  "withDefault (byXpath x) = byXpath x" "withDefault (bySelector x) = bySelector x"
  "frameOr w None = getPage w"
  "typeOf (byXpath x) = types_xpath" "typeOf (bySelector x) = types_selector"
  "selector (byXpath x) = x" "selector (bySelector x) = x"
  "selector (withDefault d) = selector d" "typeOf (withDefault d) = typeOf d"
  by (simp_all add: withDefault_def byXpath_def bySelector_def frameOr_def typeOf_def)



























subsection \<open>The claim about error handling\<close>


text \<open>It fails in two more ways. An operation that destructures its first parameter
  rejects when it is called without a descriptor: the parameter is bound before the \<open>try\<close>.
  And an error thrown inside the navigation listener while \<open>clickElement\<close> runs (a rejecting
  \<open>utilities.logMessage\<close>) is thrown during the call but awaited by nobody: the call
  completes, and the error is neither caught nor given to the handler.\<close>

lemma getElement_without_descriptor_rejects:
  "invoke (calm [] 0 0) (GetElement None None) fresh
   = (Thrown (TypeError ''Cannot destructure property 'selector' of 'undefined' as it is undefined.''),
      \<lparr>trace = [], handled = [], draws = 0, reads = 0,
       raised = [TypeError ''Cannot destructure property 'selector' of 'undefined' as it is undefined.''],
       unhandled = []\<rparr>)"
  by (simp add: destructured_def throw_def fresh_def)

lemma listener_error_stays_unhandled:
  "invoke (withSchedule (calm [] 0 0)
             [FrameNavigated ''A'', HLogSettles 0 (Some (Error ''log failed'')), ClickSettles None,
              DirectWaitSettles True, Elapse 10001, TimerFires, LogSettles None])
     (ClickElement (Some \<lparr>selector = ''#go'', type = None\<rparr>) None 10000) fresh
   = (Ok Undefined,
      \<lparr>trace = [Query 0 ''#go'', PageOn 0, ElemClick 1 1,
                LogMessage ''Frame navigated: Frame ID = A'', WaitForNavigation 0 10000,
                SetTimeout 1000, LogMessage ''Navigation Completed.'', PageOff 0],
       handled = [], draws = 0, reads = 1,
       raised = [Error ''log failed''], unhandled = [Error ''log failed'']\<rparr>)"
  by (simp add: destructured_def clickElement_def getElement_def resolveElement_def typeOf_def
        frameOr_def getPage_def page_query_def handleHotmailNavigation_def navigate_def
        strayed_def listenerErrors_def withSchedule_def calm_def fresh_def io_defs
        begin_session_def dispatchClick_def attachListener_def create_def navigationHandler_def
        frameLog_def enterSettlement_def checkStability_def resolveSettled_def
        NAVIGATION_WAIT_TIMEOUT_def NAVIGATION_RECHECK_DELAY_def Let_def)



end
